theory Spec2Isabelle
  imports Complex_Main "HOL-Library.Multiset"
begin

section \<open>Values\<close>

text \<open>
  A query plan is the Python dictionary that \<^verbatim>\<open>json.loads\<close> returns. Its values are
  arbitrary JSON values; a dictionary is an association list read through \<open>map_of\<close>.
  JSON numbers are integers here: floating-point numbers are outside the model.
\<close>

datatype json =
    JNull
  | JBool bool
  | JInt int
  | JStr string
  | JList "json list"
  | JObj "(string \<times> json) list"

type_synonym plan = "(string \<times> json) list"

text \<open>
  The Python exceptions that the executor can meet. \<open>Unmodelled\<close> is not a Python
  exception: it marks behaviour of the dataframe library on ill-typed data for which the
  model takes no position (neither a result nor an exception is asserted). It is never
  caught by an \<^verbatim>\<open>except\<close> clause of the model.
\<close>

datatype exn =
    TypeError
  | KeyError
  | IndexError
  | AttributeError
  | UnboundLocalError
  | Unmodelled

text \<open>Python truthiness of a JSON value (\<^verbatim>\<open>if x:\<close>).\<close>

fun truthy :: "json \<Rightarrow> bool" where
  "truthy JNull = False"
| "truthy (JBool b) = b"
| "truthy (JInt i) = (i \<noteq> 0)"
| "truthy (JStr s) = (s \<noteq> [])"
| "truthy (JList xs) = (xs \<noteq> [])"
| "truthy (JObj kv) = (kv \<noteq> [])"

text \<open>\<^verbatim>\<open>sub in s\<close> for two Python strings: the substring test.\<close>

fun startswith :: "string \<Rightarrow> string \<Rightarrow> bool" where
  "startswith s [] = True"
| "startswith [] (p # ps) = False"
| "startswith (c # cs) (p # ps) = (c = p \<and> startswith cs ps)"

fun str_contains :: "string \<Rightarrow> string \<Rightarrow> bool" where
  "str_contains [] sub = (sub = [])"
| "str_contains (c # cs) sub = (startswith (c # cs) sub \<or> str_contains cs sub)"

text \<open>
  \<^verbatim>\<open>key in x\<close> for a string \<open>key\<close> and an arbitrary value \<open>x\<close>: key membership for a
  dictionary, element membership for a list, the substring test for a string, and a
  \<^verbatim>\<open>TypeError\<close> for a number, a boolean or \<^verbatim>\<open>None\<close>.
\<close>

fun py_contains :: "string \<Rightarrow> json \<Rightarrow> exn + bool" where
  "py_contains key (JObj kv) = Inr (map_of kv key \<noteq> None)"
| "py_contains key (JList xs) = Inr (JStr key \<in> set xs)"
| "py_contains key (JStr s) = Inr (str_contains s key)"
| "py_contains key x = Inl TypeError"

text \<open>
  \<^verbatim>\<open>x[key]\<close> for a string \<open>key\<close>: a dictionary lookup; strings and lists accept integer
  indices only.
\<close>

fun py_getitem :: "json \<Rightarrow> string \<Rightarrow> exn + json" where
  "py_getitem (JObj kv) key = (case map_of kv key of None \<Rightarrow> Inl KeyError | Some v \<Rightarrow> Inr v)"
| "py_getitem x key = Inl TypeError"

text \<open>
  \<^verbatim>\<open>for item in x\<close>: the elements of a list, the characters of a string, the keys of a
  dictionary; anything else is not iterable.
\<close>

fun py_iter :: "json \<Rightarrow> exn + json list" where
  "py_iter (JList xs) = Inr xs"
| "py_iter (JStr s) = Inr (map (\<lambda>c. JStr [c]) s)"
| "py_iter (JObj kv) = Inr (map JStr (remdups (map fst kv)))"
| "py_iter x = Inl TypeError"

section \<open>Tables\<close>

text \<open>
  A cell of a loaded CSV table is a number, a string or missing (\<^verbatim>\<open>NaN\<close>). A table
  has its column names, the names of its floating-point columns and its rows; a row
  without an entry for a column holds a missing value there. The CSV reader makes a column
  of integers without missing values a column of 64-bit integers, and a column of numbers
  with a missing value or a decimal point a column of doubles: these are the columns
  listed in \<open>floats\<close>. A cell \<open>CInt i\<close> of a floating-point column is the double of
  value \<open>i\<close>; doubles that are not integers are outside the model.
\<close>

datatype cell = CNull | CInt int | CStr string

type_synonym row = "(string \<times> cell) list"

record dataframe =
  columns :: "string list"
  floats :: "string list"
  rows :: "row list"

definition cell_at :: "row \<Rightarrow> string \<Rightarrow> cell" where
  "cell_at r c = (case map_of r c of None \<Rightarrow> CNull | Some v \<Rightarrow> v)"

text \<open>
  Dataframes are objects: the executor's two fields hold references into an object store,
  and every dataframe that the library returns is a new object of the store.
\<close>

type_synonym addr = nat
type_synonym heap = "dataframe list"

definition alloc :: "heap \<Rightarrow> dataframe \<Rightarrow> addr \<times> heap" where
  "alloc h df = (length h, h @ [df])"

record executor =
  trades_df :: "addr option"
  holdings_df :: "addr option"

definition ALLOWED_FILES :: "json list" where
  "ALLOWED_FILES = [JStr ''trades.csv'', JStr ''holdings.csv'']"

definition ALLOWED_OPERATIONS :: "json list" where
  "ALLOWED_OPERATIONS =
     [JStr ''count'', JStr ''aggregate'', JStr ''group_by'', JStr ''sort'', JStr ''filter'',
      JStr ''limit'']"

definition ALLOWED_AGGREGATIONS :: "json list" where
  "ALLOWED_AGGREGATIONS = [JStr ''sum'', JStr ''mean'', JStr ''min'', JStr ''max'', JStr ''count'']"

definition get_dataframe :: "executor \<Rightarrow> json \<Rightarrow> addr option" where
  "get_dataframe self filename =
     (if filename = JStr ''trades.csv'' then trades_df self
      else if filename = JStr ''holdings.csv'' then holdings_df self
      else None)"

section \<open>The plan validator\<close>

text \<open>
  The second component of the validator's result. Each constructor stands for one of the
  formatted messages of \<^verbatim>\<open>_validate_plan\<close>, with the values that the message quotes;
  \<open>NoMessage\<close> is the empty string returned with \<^verbatim>\<open>True\<close>.
\<close>

datatype message =
    NoMessage
  | MissingFiles
  | MissingOperation
  | FilesNotList
  | FileNotAllowed json
  | FileNotLoaded json
  | OperationNotAllowed json
  | AggregationRequired
  | AggregationNotAllowed json
  | ColumnNotFound json json
  | FilterColumnNotFound json json

text \<open>
  A statement of the validator falls through to the next one, returns, or raises.
\<close>

datatype step = Continue | Return "bool \<times> message" | Raise exn

text \<open>Lines 79 to 86: every listed file is allowed and loaded.\<close>

fun check_files :: "executor \<Rightarrow> json list \<Rightarrow> step" where
  "check_files self [] = Continue"
| "check_files self (file # files) =
     (if file \<notin> set ALLOWED_FILES then Return (False, FileNotAllowed file)
      else if get_dataframe self file = None then Return (False, FileNotLoaded file)
      else check_files self files)"

text \<open>Lines 94 to 98.\<close>

definition check_aggregation :: "plan \<Rightarrow> json \<Rightarrow> step" where
  "check_aggregation p operation =
     (if operation = JStr ''aggregate'' then
        (case map_of p ''aggregation'' of
           None \<Rightarrow> Return (False, AggregationRequired)
         | Some a \<Rightarrow>
             if a \<notin> set ALLOWED_AGGREGATIONS then Return (False, AggregationNotAllowed a)
             else Continue)
      else Continue)"

text \<open>
  \<^verbatim>\<open>key in df.columns\<close>: the column index hashes the key first, so a list or a
  dictionary raises \<^verbatim>\<open>TypeError\<close>; the column names are strings, so no other value than
  a string is found.
\<close>

fun index_contains :: "string list \<Rightarrow> json \<Rightarrow> exn + bool" where
  "index_contains cols (JStr s) = Inr (s \<in> set cols)"
| "index_contains cols (JList xs) = Inl TypeError"
| "index_contains cols (JObj kv) = Inl TypeError"
| "index_contains cols x = Inr False"

text \<open>
  \<^verbatim>\<open>if key not in df.columns: return False, msg\<close>, where \<open>df\<close> may be \<^verbatim>\<open>None\<close>.
\<close>

definition check_column :: "dataframe option \<Rightarrow> json \<Rightarrow> message \<Rightarrow> step" where
  "check_column df key msg =
     (case df of
        None \<Rightarrow> Raise AttributeError
      | Some d \<Rightarrow>
          (case index_contains (columns d) key of
             Inl e \<Rightarrow> Raise e
           | Inr True \<Rightarrow> Continue
           | Inr False \<Rightarrow> Return (False, msg)))"

text \<open>Lines 112 to 114: the loop over the filter clauses.\<close>

fun check_filter_items :: "dataframe option \<Rightarrow> json \<Rightarrow> json list \<Rightarrow> step" where
  "check_filter_items df file [] = Continue"
| "check_filter_items df file (filter_item # items) =
     (case py_contains ''column'' filter_item of
        Inl e \<Rightarrow> Raise e
      | Inr False \<Rightarrow> check_filter_items df file items
      | Inr True \<Rightarrow>
          (case py_getitem filter_item ''column'' of
             Inl e \<Rightarrow> Raise e
           | Inr c \<Rightarrow>
               (case check_column df c (FilterColumnNotFound c file) of
                  Continue \<Rightarrow> check_filter_items df file items
                | r \<Rightarrow> r)))"

definition check_group_by :: "dataframe option \<Rightarrow> plan \<Rightarrow> json \<Rightarrow> step" where
  "check_group_by df p file =
     (case map_of p ''group_by'' of
        None \<Rightarrow> Continue
      | Some g \<Rightarrow> if truthy g then check_column df g (ColumnNotFound g file) else Continue)"

definition check_metric :: "dataframe option \<Rightarrow> plan \<Rightarrow> json \<Rightarrow> step" where
  "check_metric df p file =
     (case map_of p ''metric'' of
        None \<Rightarrow> Continue
      | Some m \<Rightarrow> if truthy m then check_column df m (ColumnNotFound m file) else Continue)"

definition check_filters :: "dataframe option \<Rightarrow> plan \<Rightarrow> json \<Rightarrow> step" where
  "check_filters df p file =
     (case map_of p ''filters'' of
        None \<Rightarrow> Continue
      | Some fs \<Rightarrow>
          (case py_iter fs of
             Inl e \<Rightarrow> Raise e
           | Inr items \<Rightarrow> check_filter_items df file items))"

text \<open>Lines 101 to 114: one pass of the loop over the files.\<close>

definition check_file_columns :: "dataframe option \<Rightarrow> plan \<Rightarrow> json \<Rightarrow> step" where
  "check_file_columns df p file =
     (case check_group_by df p file of
        Continue \<Rightarrow>
          (case check_metric df p file of
             Continue \<Rightarrow> check_filters df p file
           | r \<Rightarrow> r)
      | r \<Rightarrow> r)"

definition frame_of :: "executor \<Rightarrow> heap \<Rightarrow> json \<Rightarrow> dataframe option" where
  "frame_of self h file = map_option (\<lambda>a. h ! a) (get_dataframe self file)"

fun check_columns :: "executor \<Rightarrow> heap \<Rightarrow> plan \<Rightarrow> json list \<Rightarrow> step" where
  "check_columns self h p [] = Continue"
| "check_columns self h p (file # files) =
     (case check_file_columns (frame_of self h file) p file of
        Continue \<Rightarrow> check_columns self h p files
      | r \<Rightarrow> r)"

text \<open>
  \<^verbatim>\<open>_validate_plan\<close>: \<open>Inr (is_valid, error_message)\<close> when it returns, \<open>Inl e\<close> when it
  raises \<open>e\<close>.
\<close>

definition validate_plan :: "executor \<Rightarrow> heap \<Rightarrow> plan \<Rightarrow> exn + bool \<times> message" where
  "validate_plan self h p =
     (case map_of p ''files'' of
        None \<Rightarrow> Inr (False, MissingFiles)
      | Some files \<Rightarrow>
     (case map_of p ''operation'' of
        None \<Rightarrow> Inr (False, MissingOperation)
      | Some operation \<Rightarrow>
     (case files of
        JList fs \<Rightarrow>
          (case check_files self fs of
             Return r \<Rightarrow> Inr r
           | Raise e \<Rightarrow> Inl e
           | Continue \<Rightarrow>
               if operation \<notin> set ALLOWED_OPERATIONS
               then Inr (False, OperationNotAllowed operation)
               else
                 (case check_aggregation p operation of
                    Return r \<Rightarrow> Inr r
                  | Raise e \<Rightarrow> Inl e
                  | Continue \<Rightarrow>
                      (case check_columns self h p fs of
                         Return r \<Rightarrow> Inr r
                       | Raise e \<Rightarrow> Inl e
                       | Continue \<Rightarrow> Inr (True, NoMessage))))
      | _ \<Rightarrow> Inr (False, FilesNotList))))"

section \<open>Dataframe operations\<close>

text \<open>
  The operations of the dataframe library that \<^verbatim>\<open>execute_plan\<close> calls, on tables of
  numbers, strings and missing values. Where the library's behaviour depends on data
  that the model does not hold (the rounding of floating-point sums, list-valued keys,
  strings mixed with missing values under a reducer), the result is \<open>Unmodelled\<close>.
\<close>

text \<open>
  \<^verbatim>\<open>df[key]\<close>: the key must name a column, else \<^verbatim>\<open>KeyError\<close>; a list-valued key
  selects a sub-frame, which is not modelled.
\<close>

fun column_name :: "dataframe \<Rightarrow> json \<Rightarrow> exn + string" where
  "column_name df (JStr s) = (if s \<in> set (columns df) then Inr s else Inl KeyError)"
| "column_name df (JList xs) = Inl Unmodelled"
| "column_name df (JObj kv) = Inl Unmodelled"
| "column_name df x = Inl KeyError"

definition series_of :: "row list \<Rightarrow> string \<Rightarrow> cell list" where
  "series_of rs c = map (\<lambda>r. cell_at r c) rs"

datatype filter_op = Eq | Ne | Gt | Lt | Ge | Le | IsIn

fun as_number :: "json \<Rightarrow> int option" where
  "as_number (JInt i) = Some i"
| "as_number (JBool b) = Some (if b then 1 else 0)"
| "as_number x = None"

text \<open>Python's order on strings: lexicographic by code point.\<close>

fun str_less :: "string \<Rightarrow> string \<Rightarrow> bool" where
  "str_less [] [] = False"
| "str_less [] (y # ys) = True"
| "str_less (x # xs) [] = False"
| "str_less (x # xs) (y # ys) =
     ((of_char x :: nat) < of_char y \<or> (x = y \<and> str_less xs ys))"

text \<open>
  Elementwise \<^verbatim>\<open>==\<close> of a cell and a scalar: a missing value equals nothing, and values
  of different types are unequal.
\<close>

fun cell_eq :: "cell \<Rightarrow> json \<Rightarrow> bool" where
  "cell_eq (CInt i) v = (as_number v = Some i)"
| "cell_eq (CStr s) (JStr t) = (s = t)"
| "cell_eq c v = False"

text \<open>
  Elementwise order comparison of a cell and a scalar of the same type; a missing value
  compares false.
\<close>

fun cell_cmp :: "filter_op \<Rightarrow> cell \<Rightarrow> json \<Rightarrow> bool" where
  "cell_cmp opr (CInt i) v =
     (case as_number v of
        None \<Rightarrow> False
      | Some j \<Rightarrow>
          (case opr of Gt \<Rightarrow> i > j | Lt \<Rightarrow> i < j | Ge \<Rightarrow> i \<ge> j | Le \<Rightarrow> i \<le> j | _ \<Rightarrow> False))"
| "cell_cmp opr (CStr s) (JStr t) =
     (case opr of
        Gt \<Rightarrow> str_less t s
      | Lt \<Rightarrow> str_less s t
      | Ge \<Rightarrow> \<not> str_less s t
      | Le \<Rightarrow> \<not> str_less t s
      | _ \<Rightarrow> False)"
| "cell_cmp opr c v = False"

fun is_int_cell :: "cell \<Rightarrow> bool" where
  "is_int_cell (CInt i) = True"
| "is_int_cell c = False"

fun is_str_cell :: "cell \<Rightarrow> bool" where
  "is_str_cell (CStr s) = True"
| "is_str_cell c = False"

text \<open>
  The cells that a column of each dtype can hold: an integer of 64 bits; a missing value
  or an integer of size at most \<open>2 ^ 53\<close>, which a double holds exactly; a string or a
  missing value.
\<close>

fun int64_cell :: "cell \<Rightarrow> bool" where
  "int64_cell (CInt i) = (- (2 ^ 63) \<le> i \<and> i < 2 ^ 63)"
| "int64_cell c = False"

fun float_cell :: "cell \<Rightarrow> bool" where
  "float_cell (CInt i) = (\<bar>i\<bar> \<le> 2 ^ 53)"
| "float_cell CNull = True"
| "float_cell c = False"

fun object_cell :: "cell \<Rightarrow> bool" where
  "object_cell (CInt i) = False"
| "object_cell c = True"

text \<open>
  A number of the plan is compared with the cells of a floating-point column as a
  double: the comparison is exact when a double holds the number.
\<close>

fun double_number :: "json \<Rightarrow> bool" where
  "double_number (JInt i) = (\<bar>i\<bar> \<le> 2 ^ 53)"
| "double_number v = True"

fun double_json :: "json \<Rightarrow> bool" where
  "double_json (JList vs) = list_all double_number vs"
| "double_json v = double_number v"

fun is_scalar_json :: "json \<Rightarrow> bool" where
  "is_scalar_json (JList xs) = False"
| "is_scalar_json (JObj kv) = False"
| "is_scalar_json x = True"

text \<open>
  \<^verbatim>\<open>series OP value\<close> for the four order operators. A comparison with \<^verbatim>\<open>None\<close> is
  false in every row, whatever the column holds. Comparing numbers with a string (or
  strings with a number) raises \<^verbatim>\<open>TypeError\<close>; on a series without any value, whether
  a string raises depends on the column's dtype.
\<close>

definition order_mask :: "filter_op \<Rightarrow> cell list \<Rightarrow> json \<Rightarrow> exn + bool list" where
  "order_mask opr series v =
     (let present = filter (\<lambda>c. c \<noteq> CNull) series in
      if \<not> is_scalar_json v then Inl Unmodelled
      else if v = JNull then Inr (map (\<lambda>c. False) series)
      else if as_number v \<noteq> None then
        (if list_all is_int_cell present then Inr (map (\<lambda>c. cell_cmp opr c v) series)
         else Inl TypeError)
      else if present = [] then Inl Unmodelled
      else if list_all is_str_cell present then Inr (map (\<lambda>c. cell_cmp opr c v) series)
      else Inl TypeError)"

text \<open>
  \<^verbatim>\<open>series.isin(value)\<close>: the value must be list-like; membership is modelled for lists
  of integers and strings.
\<close>

fun is_plain_json :: "json \<Rightarrow> bool" where
  "is_plain_json (JInt i) = True"
| "is_plain_json (JStr s) = True"
| "is_plain_json x = False"

fun isin_mask :: "cell list \<Rightarrow> json \<Rightarrow> exn + bool list" where
  "isin_mask series (JList vs) =
     (if list_all is_plain_json vs then Inr (map (\<lambda>c. list_ex (cell_eq c) vs) series)
      else Inl Unmodelled)"
| "isin_mask series (JObj kv) = Inl Unmodelled"
| "isin_mask series v = Inl TypeError"

fun compare_mask :: "filter_op \<Rightarrow> cell list \<Rightarrow> json \<Rightarrow> exn + bool list" where
  "compare_mask Eq series v =
     (if is_scalar_json v then Inr (map (\<lambda>c. cell_eq c v) series) else Inl Unmodelled)"
| "compare_mask Ne series v =
     (if is_scalar_json v then Inr (map (\<lambda>c. \<not> cell_eq c v) series) else Inl Unmodelled)"
| "compare_mask IsIn series v = isin_mask series v"
| "compare_mask opr series v = order_mask opr series v"

text \<open>\<^verbatim>\<open>df[mask]\<close>: a new dataframe with the rows where the mask holds.\<close>

definition select_rows :: "dataframe \<Rightarrow> bool list \<Rightarrow> dataframe" where
  "select_rows df keep = df\<lparr>rows := map fst (filter snd (zip (rows df) keep))\<rparr>"

text \<open>
  \<^verbatim>\<open>df[df[column] OP value]\<close>. On a floating-point column the comparison is modelled
  when the cells and the numbers of the value are held by doubles exactly.
\<close>

definition filter_frame :: "dataframe \<Rightarrow> json \<Rightarrow> filter_op \<Rightarrow> json \<Rightarrow> exn + dataframe" where
  "filter_frame df column opr v =
     (case column_name df column of
        Inl e \<Rightarrow> Inl e
      | Inr c \<Rightarrow>
          if c \<in> set (floats df) \<and>
             \<not> (list_all float_cell (series_of (rows df) c) \<and> double_json v)
          then Inl Unmodelled
          else
            (case compare_mask opr (series_of (rows df) c) v of
               Inl e \<Rightarrow> Inl e
             | Inr keep \<Rightarrow> Inr (select_rows df keep)))"

text \<open>
  Group keys come out sorted, integers before strings; rows whose key is missing belong to
  no group (\<^verbatim>\<open>groupby\<close> has \<^verbatim>\<open>sort=True\<close> and \<^verbatim>\<open>dropna=True\<close> by default).
\<close>

fun cell_less :: "cell \<Rightarrow> cell \<Rightarrow> bool" where
  "cell_less (CInt i) (CInt j) = (i < j)"
| "cell_less (CInt i) (CStr t) = True"
| "cell_less (CStr s) (CStr t) = str_less s t"
| "cell_less a b = False"

fun insort_by :: "('a \<Rightarrow> 'a \<Rightarrow> bool) \<Rightarrow> 'a \<Rightarrow> 'a list \<Rightarrow> 'a list" where
  "insort_by lt x [] = [x]"
| "insort_by lt x (y # ys) = (if lt y x then y # insort_by lt x ys else x # y # ys)"

definition sort_by :: "('a \<Rightarrow> 'a \<Rightarrow> bool) \<Rightarrow> 'a list \<Rightarrow> 'a list" where
  "sort_by lt xs = foldr (insort_by lt) xs []"

definition group_keys :: "row list \<Rightarrow> string \<Rightarrow> cell list" where
  "group_keys rs g = sort_by cell_less (remdups (filter (\<lambda>c. c \<noteq> CNull) (series_of rs g)))"

definition group_rows :: "row list \<Rightarrow> string \<Rightarrow> cell \<Rightarrow> row list" where
  "group_rows rs g k = filter (\<lambda>r. cell_at r g = k) rs"

text \<open>\<^verbatim>\<open>df.groupby(key)\<close>: the groups, each with its key, in key order.\<close>

definition groupby :: "dataframe \<Rightarrow> json \<Rightarrow> exn + (cell \<times> row list) list" where
  "groupby df key =
     (case column_name df key of
        Inl e \<Rightarrow> Inl e
      | Inr g \<Rightarrow> Inr (map (\<lambda>k. (k, group_rows (rows df) g k)) (group_keys (rows df) g)))"

text \<open>
  The value of a result: a number, a string, or \<^verbatim>\<open>NaN\<close>. A number \<open>SInt i\<close> is the
  64-bit integer or the double of value \<open>i\<close>. A result is a scalar or a dictionary in
  its iteration order.
\<close>

datatype scalar = SInt int | SStr string | SNaN

datatype qresult = Scalar scalar | Mapping "(cell \<times> scalar) list"

fun ints_of :: "cell list \<Rightarrow> int list" where
  "ints_of [] = []"
| "ints_of (CInt i # cs) = i # ints_of cs"
| "ints_of (c # cs) = ints_of cs"

fun strs_of :: "cell list \<Rightarrow> string list" where
  "strs_of [] = []"
| "strs_of (CStr s # cs) = s # strs_of cs"
| "strs_of (c # cs) = strs_of cs"

text \<open>
  The dtype of a column, read off the table: \<^verbatim>\<open>int64\<close> when every cell is an integer
  of 64 bits, \<^verbatim>\<open>float64\<close> when the column is listed as floating-point and every cell
  is missing or an integer that a double holds, \<^verbatim>\<open>object\<close> when every cell is a
  string or missing. A column of any other content has no dtype in the model, and a
  reducer on it is \<open>Unmodelled\<close>.
\<close>

datatype kind = IntCol | FloatCol | StrCol

definition column_kind :: "dataframe \<Rightarrow> string \<Rightarrow> kind option" where
  "column_kind df c =
     (let series = series_of (rows df) c in
      if c \<in> set (floats df) then (if list_all float_cell series then Some FloatCol else None)
      else if list_all int64_cell series then Some IntCol
      else if list_all object_cell series then Some StrCol
      else None)"

text \<open>Addition of 64-bit integers wraps around: the sum as a signed 64-bit number.\<close>

definition wrap64 :: "int \<Rightarrow> int" where
  "wrap64 i = (i + 2 ^ 63) mod 2 ^ 64 - 2 ^ 63"

text \<open>The sum of the absolute values of the numbers of a series.\<close>

definition abs_total :: "cell list \<Rightarrow> int" where
  "abs_total series = (\<Sum>i\<leftarrow>ints_of series. \<bar>i\<bar>)"

text \<open>
  The five reducers, on a series of a column of the given dtype; each skips missing
  values. A sum of 64-bit integers wraps around. A sum of doubles is rounded, in an
  order that depends on the library's summation algorithm; it is modelled when the
  absolute values add up to at most \<open>2 ^ 53\<close>: then every partial sum, in any order,
  is an integer that a double holds exactly, and the result is the exact sum. A mean is
  the sum of the values as doubles divided by their number; it is modelled when the sum
  is exact and the quotient is an integer. Minimum and maximum do no arithmetic.
\<close>

fun series_sum :: "kind option \<Rightarrow> cell list \<Rightarrow> exn + scalar" where
  "series_sum (Some IntCol) series = Inr (SInt (wrap64 (sum_list (ints_of series))))"
| "series_sum (Some FloatCol) series =
     (if abs_total series \<le> 2 ^ 53 then Inr (SInt (sum_list (ints_of series)))
      else Inl Unmodelled)"
| "series_sum k series = Inl Unmodelled"

fun series_mean :: "kind option \<Rightarrow> cell list \<Rightarrow> exn + scalar" where
  "series_mean (Some StrCol) series = Inl Unmodelled"
| "series_mean None series = Inl Unmodelled"
| "series_mean k series =
     (case ints_of series of
        [] \<Rightarrow> Inr SNaN
      | x # xs \<Rightarrow>
          if abs_total series \<le> 2 ^ 53 \<and> int (length (x # xs)) dvd sum_list (x # xs)
          then Inr (SInt (sum_list (x # xs) div int (length (x # xs))))
          else Inl Unmodelled)"

fun series_min :: "kind option \<Rightarrow> cell list \<Rightarrow> exn + scalar" where
  "series_min (Some StrCol) series =
     (if list_all is_str_cell series then
        (case strs_of series of
           [] \<Rightarrow> Inr SNaN
         | x # xs \<Rightarrow> Inr (SStr (fold (\<lambda>a b. if str_less a b then a else b) xs x)))
      else Inl Unmodelled)"
| "series_min None series = Inl Unmodelled"
| "series_min k series =
     (case ints_of series of [] \<Rightarrow> Inr SNaN | x # xs \<Rightarrow> Inr (SInt (fold min xs x)))"

fun series_max :: "kind option \<Rightarrow> cell list \<Rightarrow> exn + scalar" where
  "series_max (Some StrCol) series =
     (if list_all is_str_cell series then
        (case strs_of series of
           [] \<Rightarrow> Inr SNaN
         | x # xs \<Rightarrow> Inr (SStr (fold (\<lambda>a b. if str_less b a then a else b) xs x)))
      else Inl Unmodelled)"
| "series_max None series = Inl Unmodelled"
| "series_max k series =
     (case ints_of series of [] \<Rightarrow> Inr SNaN | x # xs \<Rightarrow> Inr (SInt (fold max xs x)))"

fun series_count :: "kind option \<Rightarrow> cell list \<Rightarrow> exn + scalar" where
  "series_count k series = Inr (SInt (int (length (filter (\<lambda>c. c \<noteq> CNull) series))))"

text \<open>
  The \<^verbatim>\<open>if\<close>/\<^verbatim>\<open>elif\<close> chain on the aggregation kind; \<open>None\<close> when no branch is taken.
\<close>

definition reducer_of :: "json \<Rightarrow> (kind option \<Rightarrow> cell list \<Rightarrow> exn + scalar) option" where
  "reducer_of aggregation =
     (if aggregation = JStr ''sum'' then Some series_sum
      else if aggregation = JStr ''mean'' then Some series_mean
      else if aggregation = JStr ''min'' then Some series_min
      else if aggregation = JStr ''max'' then Some series_max
      else if aggregation = JStr ''count'' then Some series_count
      else None)"

fun reduce_groups ::
  "(cell list \<Rightarrow> exn + scalar) \<Rightarrow> string \<Rightarrow> (cell \<times> row list) list \<Rightarrow> exn + (cell \<times> scalar) list"
where
  "reduce_groups f m [] = Inr []"
| "reduce_groups f m ((k, rs) # groups) =
     (case f (series_of rs m) of
        Inl e \<Rightarrow> Inl e
      | Inr v \<Rightarrow>
          (case reduce_groups f m groups of
             Inl e \<Rightarrow> Inl e
           | Inr kvs \<Rightarrow> Inr ((k, v) # kvs)))"

section \<open>The plan executor\<close>

text \<open>
  The \<^verbatim>\<open>error\<close> entry of a response: the validator's message, the text of line 145, or
  the text \<^verbatim>\<open>str(e)\<close> of a caught exception \<open>e\<close>.
\<close>

datatype error_text = Invalid message | NotLoaded json | Caught exn

record response =
  success :: bool
  result :: "qresult option"
  error :: "error_text option"
  plan :: "plan option"

definition failure :: "error_text \<Rightarrow> response" where
  "failure e = \<lparr>success = False, result = None, error = Some e, plan = None\<rparr>"

text \<open>\<^verbatim>\<open>x.get(key, default)\<close>; only a dictionary has the method.\<close>

fun py_get :: "json \<Rightarrow> string \<Rightarrow> json \<Rightarrow> exn + json" where
  "py_get (JObj kv) key dflt = Inr (case map_of kv key of None \<Rightarrow> dflt | Some v \<Rightarrow> v)"
| "py_get x key dflt = Inl AttributeError"

text \<open>\<^verbatim>\<open>x[0]\<close>.\<close>

fun py_first :: "json \<Rightarrow> exn + json" where
  "py_first (JList []) = Inl IndexError"
| "py_first (JList (x # xs)) = Inr x"
| "py_first (JStr []) = Inl IndexError"
| "py_first (JStr (c # cs)) = Inr (JStr [c])"
| "py_first (JObj kv) = Inl KeyError"
| "py_first x = Inl TypeError"

text \<open>The \<^verbatim>\<open>if\<close>/\<^verbatim>\<open>elif\<close> chain of lines 156 to 169; \<open>None\<close> when no branch is taken.\<close>

definition filter_op_of :: "json \<Rightarrow> filter_op option" where
  "filter_op_of operator =
     (if operator = JStr ''=='' then Some Eq
      else if operator = JStr ''!='' then Some Ne
      else if operator = JStr ''>'' then Some Gt
      else if operator = JStr ''<'' then Some Lt
      else if operator = JStr ''>='' then Some Ge
      else if operator = JStr ''<='' then Some Le
      else if operator = JStr ''in'' then Some IsIn
      else None)"

text \<open>
  One pass of the loop of lines 151 to 169. The local variable \<open>df\<close> is a reference; a
  branch that is taken binds it to a new dataframe.
\<close>

definition apply_filter :: "heap \<Rightarrow> addr \<Rightarrow> json \<Rightarrow> (exn + addr) \<times> heap" where
  "apply_filter h df filter_item =
     (case py_get filter_item ''column'' JNull of
        Inl e \<Rightarrow> (Inl e, h)
      | Inr column \<Rightarrow>
     (case py_get filter_item ''operator'' (JStr ''=='') of
        Inl e \<Rightarrow> (Inl e, h)
      | Inr operator \<Rightarrow>
     (case py_get filter_item ''value'' JNull of
        Inl e \<Rightarrow> (Inl e, h)
      | Inr v \<Rightarrow>
     (case filter_op_of operator of
        None \<Rightarrow> (Inr df, h)
      | Some opr \<Rightarrow>
          (case filter_frame (h ! df) column opr v of
             Inl e \<Rightarrow> (Inl e, h)
           | Inr d \<Rightarrow> (case alloc h d of (a, h') \<Rightarrow> (Inr a, h')))))))"

fun apply_filters :: "heap \<Rightarrow> addr \<Rightarrow> json list \<Rightarrow> (exn + addr) \<times> heap" where
  "apply_filters h df [] = (Inr df, h)"
| "apply_filters h df (filter_item # items) =
     (case apply_filter h df filter_item of
        (Inl e, h') \<Rightarrow> (Inl e, h')
      | (Inr df', h') \<Rightarrow> apply_filters h' df' items)"

text \<open>Lines 150 and 151.\<close>

definition run_filters :: "heap \<Rightarrow> addr \<Rightarrow> plan \<Rightarrow> (exn + addr) \<times> heap" where
  "run_filters h df p =
     (case map_of p ''filters'' of
        None \<Rightarrow> (Inr df, h)
      | Some fs \<Rightarrow>
          if truthy fs then
            (case py_iter fs of
               Inl e \<Rightarrow> (Inl e, h)
             | Inr items \<Rightarrow> apply_filters h df items)
          else (Inr df, h))"

text \<open>\<^verbatim>\<open>'group_by' in plan and plan['group_by']\<close>.\<close>

definition has_group_by :: "plan \<Rightarrow> json option" where
  "has_group_by p =
     (case map_of p ''group_by'' of
        None \<Rightarrow> None
      | Some g \<Rightarrow> if truthy g then Some g else None)"

text \<open>Lines 174 to 178.\<close>

definition run_count :: "dataframe \<Rightarrow> plan \<Rightarrow> exn + qresult" where
  "run_count df p =
     (case has_group_by p of
        Some g \<Rightarrow>
          (case groupby df g of
             Inl e \<Rightarrow> Inl e
           | Inr groups \<Rightarrow> Inr (Mapping (map (\<lambda>(k, rs). (k, SInt (int (length rs)))) groups)))
      | None \<Rightarrow> Inr (Scalar (SInt (int (length (rows df))))))"

text \<open>
  Lines 180 to 207. When no branch of the chain on the aggregation kind is taken,
  \<open>result\<close> stays unbound and its first use raises \<^verbatim>\<open>UnboundLocalError\<close>.
\<close>

definition run_aggregate :: "dataframe \<Rightarrow> plan \<Rightarrow> exn + qresult" where
  "run_aggregate df p =
     (let metric = (case map_of p ''metric'' of None \<Rightarrow> JNull | Some m \<Rightarrow> m);
          aggregation = (case map_of p ''aggregation'' of None \<Rightarrow> JStr ''sum'' | Some a \<Rightarrow> a)
      in case has_group_by p of
        Some g \<Rightarrow>
          (case groupby df g of
             Inl e \<Rightarrow> Inl e
           | Inr groups \<Rightarrow>
               (case column_name df metric of
                  Inl e \<Rightarrow> Inl e
                | Inr m \<Rightarrow>
                    (case reducer_of aggregation of
                       None \<Rightarrow> Inl UnboundLocalError
                     | Some f \<Rightarrow>
                         (case reduce_groups (f (column_kind df m)) m groups of
                            Inl e \<Rightarrow> Inl e
                          | Inr kvs \<Rightarrow> Inr (Mapping kvs)))))
      | None \<Rightarrow>
          (case reducer_of aggregation of
             None \<Rightarrow> Inl UnboundLocalError
           | Some f \<Rightarrow>
               (case column_name df metric of
                  Inl e \<Rightarrow> Inl e
                | Inr m \<Rightarrow>
                    (case f (column_kind df m) (series_of (rows df) m) of
                       Inl e \<Rightarrow> Inl e
                     | Inr v \<Rightarrow> Inr (Scalar v)))))"

text \<open>
  Lines 172 to 207. An operation other than \<^verbatim>\<open>count\<close> and \<^verbatim>\<open>aggregate\<close> leaves
  \<open>result\<close> unbound.
\<close>

definition run_operation :: "dataframe \<Rightarrow> plan \<Rightarrow> exn + qresult" where
  "run_operation df p =
     (case map_of p ''operation'' of
        None \<Rightarrow> Inl KeyError
      | Some operation \<Rightarrow>
          if operation = JStr ''count'' then run_count df p
          else if operation = JStr ''aggregate'' then run_aggregate df p
          else Inl UnboundLocalError)"

text \<open>
  Python's \<^verbatim>\<open>sorted\<close> by value: stable, also with \<^verbatim>\<open>reverse=True\<close>. Numbers compare
  with numbers and strings with strings; a number against a string raises
  \<^verbatim>\<open>TypeError\<close>. Every comparison with \<^verbatim>\<open>NaN\<close> is false, so that with \<^verbatim>\<open>NaN\<close>
  among the values the outcome depends on which pairs the algorithm compares. It first
  compares each value with its neighbour, to find a run that is already in order: a list
  of numbers and \<^verbatim>\<open>NaN\<close> in which no value has to go before its left neighbour is such
  a run and comes out unchanged. The order of other lists with \<^verbatim>\<open>NaN\<close> is not
  modelled.
\<close>

fun is_number :: "scalar \<Rightarrow> bool" where
  "is_number (SInt i) = True"
| "is_number x = False"

fun is_text :: "scalar \<Rightarrow> bool" where
  "is_text (SStr s) = True"
| "is_text x = False"

fun number_of :: "scalar \<Rightarrow> int" where
  "number_of (SInt i) = i"
| "number_of x = 0"

fun scalar_less :: "scalar \<Rightarrow> scalar \<Rightarrow> bool" where
  "scalar_less (SStr s) (SStr t) = str_less s t"
| "scalar_less a b = (is_number a \<and> is_number b \<and> number_of a < number_of b)"

definition item_before :: "bool \<Rightarrow> cell \<times> scalar \<Rightarrow> cell \<times> scalar \<Rightarrow> bool" where
  "item_before reverse a b =
     (if reverse then scalar_less (snd b) (snd a) else scalar_less (snd a) (snd b))"

definition py_sorted :: "bool \<Rightarrow> (cell \<times> scalar) list \<Rightarrow> exn + (cell \<times> scalar) list" where
  "py_sorted reverse items =
     (let vs = map snd items in
      if length items \<le> 1 then Inr items
      else if SNaN \<in> set vs then
        (if list_all (\<lambda>v. is_number v \<or> v = SNaN) vs \<and>
            successively (\<lambda>a b. \<not> item_before reverse b a) items
         then Inr items
         else Inl Unmodelled)
      else if list_all is_number vs \<or> list_all is_text vs
      then Inr (sort_by (item_before reverse) items)
      else Inl TypeError)"

text \<open>Lines 210 to 216.\<close>

definition apply_sort :: "plan \<Rightarrow> qresult \<Rightarrow> exn + qresult" where
  "apply_sort p r =
     (case map_of p ''sort'' of
        None \<Rightarrow> Inr r
      | Some s \<Rightarrow>
          if truthy s then
            (case r of
               Mapping items \<Rightarrow>
                 (case py_sorted (s = JStr ''desc'') items of
                    Inl e \<Rightarrow> Inl e
                  | Inr items' \<Rightarrow> Inr (Mapping items'))
             | Scalar x \<Rightarrow> Inr r)
          else Inr r)"

text \<open>
  \<^verbatim>\<open>xs[:n]\<close>: a non-negative bound keeps the first \<open>n\<close> elements, a negative one drops
  the last \<open>-n\<close>; a boolean counts as 0 or 1, \<^verbatim>\<open>None\<close> keeps everything, and any other
  bound raises \<^verbatim>\<open>TypeError\<close>.
\<close>

fun py_slice_to :: "'a list \<Rightarrow> json \<Rightarrow> exn + 'a list" where
  "py_slice_to xs (JInt n) =
     Inr (if 0 \<le> n then take (nat n) xs else take (length xs - nat (- n)) xs)"
| "py_slice_to xs (JBool b) = Inr (take (if b then 1 else 0) xs)"
| "py_slice_to xs JNull = Inr xs"
| "py_slice_to xs x = Inl TypeError"

text \<open>Lines 219 to 223.\<close>

definition apply_limit :: "plan \<Rightarrow> qresult \<Rightarrow> exn + qresult" where
  "apply_limit p r =
     (case map_of p ''limit'' of
        None \<Rightarrow> Inr r
      | Some n \<Rightarrow>
          if truthy n then
            (case r of
               Mapping items \<Rightarrow>
                 (case py_slice_to items n of
                    Inl e \<Rightarrow> Inl e
                  | Inr items' \<Rightarrow> Inr (Mapping items'))
             | Scalar x \<Rightarrow> Inr r)
          else Inr r)"

text \<open>Lines 172 to 230: what is computed from the filtered dataframe.\<close>

definition finish_plan :: "dataframe \<Rightarrow> plan \<Rightarrow> exn + response" where
  "finish_plan df p =
     (case run_operation df p of
        Inl e \<Rightarrow> Inl e
      | Inr r \<Rightarrow>
          (case apply_sort p r of
             Inl e \<Rightarrow> Inl e
           | Inr r' \<Rightarrow>
               (case apply_limit p r' of
                  Inl e \<Rightarrow> Inl e
                | Inr r'' \<Rightarrow>
                    Inr \<lparr>success = True, result = Some r'', error = None, plan = Some p\<rparr>)))"

text \<open>The body of the \<^verbatim>\<open>try\<close> statement, lines 138 to 230.\<close>

definition try_body :: "executor \<Rightarrow> heap \<Rightarrow> plan \<Rightarrow> (exn + response) \<times> heap" where
  "try_body self h p =
     (case map_of p ''files'' of
        None \<Rightarrow> (Inl KeyError, h)
      | Some files \<Rightarrow>
          (case py_first files of
             Inl e \<Rightarrow> (Inl e, h)
           | Inr filename \<Rightarrow>
               (case get_dataframe self filename of
                  None \<Rightarrow> (Inr (failure (NotLoaded filename)), h)
                | Some df \<Rightarrow>
                    (case run_filters h df p of
                       (Inl e, h') \<Rightarrow> (Inl e, h')
                     | (Inr df', h') \<Rightarrow> (finish_plan (h' ! df') p, h')))))"

text \<open>
  \<^verbatim>\<open>execute_plan\<close>: the validator runs outside the \<^verbatim>\<open>try\<close> statement, so an exception
  of the validator reaches the caller (\<open>Inl\<close>); an exception of the body is caught and
  becomes a failure response. The second component is the object store afterwards.
\<close>

definition execute_plan :: "executor \<Rightarrow> heap \<Rightarrow> plan \<Rightarrow> (exn + response) \<times> heap" where
  "execute_plan self h p =
     (case validate_plan self h p of
        Inl e \<Rightarrow> (Inl e, h)
      | Inr (is_valid, error_msg) \<Rightarrow>
          if \<not> is_valid then (Inr (failure (Invalid error_msg)), h)
          else
            (case try_body self h p of
               (Inl Unmodelled, h') \<Rightarrow> (Inl Unmodelled, h')
             | (Inl e, h') \<Rightarrow> (Inr (failure (Caught e)), h')
             | (Inr r, h') \<Rightarrow> (Inr r, h')))"

text \<open>\<^verbatim>\<open>get_available_columns\<close>: the column names of the loaded tables.\<close>

definition get_available_columns :: "executor \<Rightarrow> heap \<Rightarrow> (string \<times> string list) list" where
  "get_available_columns self h =
     (case trades_df self of None \<Rightarrow> [] | Some a \<Rightarrow> [(''trades.csv'', columns (h ! a))]) @
     (case holdings_df self of None \<Rightarrow> [] | Some a \<Rightarrow> [(''holdings.csv'', columns (h ! a))])"

section \<open>The chatbot and the chat endpoint\<close>

text \<open>
  A question is a Python string: a sequence of Unicode code points. \<^verbatim>\<open>str.strip\<close>
  removes leading and trailing whitespace, that is the code points for which
  \<^verbatim>\<open>str.isspace\<close> holds.
\<close>

type_synonym ustring = "nat list"

definition isspace :: "nat \<Rightarrow> bool" where
  "isspace c =
     ((9 \<le> c \<and> c \<le> 13) \<or> (28 \<le> c \<and> c \<le> 32) \<or> c = 133 \<or> c = 160 \<or> c = 5760 \<or>
      (8192 \<le> c \<and> c \<le> 8202) \<or> c = 8232 \<or> c = 8233 \<or> c = 8239 \<or> c = 8287 \<or> c = 12288)"

definition strip :: "ustring \<Rightarrow> ustring" where
  "strip s = rev (dropWhile isspace (rev (dropWhile isspace s)))"

text \<open>
  The two components backed by the external language model are functions of their
  arguments: the planner returns a plan or \<^verbatim>\<open>None\<close>, the explainer a text (the model's
  answer or the fallback text). Every call of a component is recorded, in order.
\<close>

record chatbot =
  executor :: executor
  planner :: "ustring \<Rightarrow> (string \<times> string list) list \<Rightarrow> plan option"
  explainer :: "ustring \<Rightarrow> plan \<Rightarrow> response \<Rightarrow> string"

datatype call = PlannerCall ustring | ExecutorCall plan | ExplainerCall ustring plan

definition ERROR_MESSAGE :: string where
  "ERROR_MESSAGE = ''Sorry can not find the answer''"

text \<open>
  \<^verbatim>\<open>answer_question\<close>: the answer, or the exception that \<^verbatim>\<open>execute_plan\<close> lets
  through; the calls made; the object store afterwards.
\<close>

definition answer_question ::
  "chatbot \<Rightarrow> heap \<Rightarrow> ustring \<Rightarrow> (exn + string) \<times> call list \<times> heap"
where
  "answer_question self h question =
     (let available_columns = get_available_columns (executor self) h in
      case planner self question available_columns of
        None \<Rightarrow> (Inr ERROR_MESSAGE, [PlannerCall question], h)
      | Some p \<Rightarrow>
          (case execute_plan (executor self) h p of
             (Inl e, h') \<Rightarrow> (Inl e, [PlannerCall question, ExecutorCall p], h')
           | (Inr execution_result, h') \<Rightarrow>
               if \<not> success execution_result
               then (Inr ERROR_MESSAGE, [PlannerCall question, ExecutorCall p], h')
               else (Inr (explainer self question p execution_result),
                     [PlannerCall question, ExecutorCall p, ExplainerCall question p], h')))"

text \<open>
  What the endpoint sends: an HTTP error with its status and detail, or a
  \<^verbatim>\<open>QuestionResponse\<close> whose answer is a text or the text of a caught exception.
\<close>

datatype answer = Text string | ErrorProcessing exn

datatype reply = HTTPException nat string | QuestionResponse answer bool

text \<open>
  \<^verbatim>\<open>chat\<close>, for the global \<open>chatbot\<close> (\<^verbatim>\<open>None\<close> until it is initialised) and the
  question of the request.
\<close>

definition chat :: "chatbot option \<Rightarrow> heap \<Rightarrow> ustring \<Rightarrow> (exn + reply) \<times> call list \<times> heap" where
  "chat cb h question =
     (case cb of
        None \<Rightarrow>
          (Inr (HTTPException 503
                  ''Chatbot not initialized. Check OPENAI_API_KEY and data files.''), [], h)
      | Some c \<Rightarrow>
          if question = [] \<or> strip question = []
          then (Inr (HTTPException 400 ''Question cannot be empty''), [], h)
          else
            (case answer_question c h (strip question) of
               (Inl Unmodelled, calls, h') \<Rightarrow> (Inl Unmodelled, calls, h')
             | (Inl e, calls, h') \<Rightarrow> (Inr (QuestionResponse (ErrorProcessing e) False), calls, h')
             | (Inr a, calls, h') \<Rightarrow> (Inr (QuestionResponse (Text a) True), calls, h')))"



text \<open>What a caller sees of an outcome, without the echoed plan.\<close>

definition outcome :: "exn + response \<Rightarrow> exn + bool \<times> qresult option \<times> error_text option" where
  "outcome x = map_sum id (\<lambda>r. (success r, result r, error r)) x"

section \<open>Example data\<close>

text \<open>
  The example table of the specification, loaded as \<^verbatim>\<open>holdings.csv\<close>, and its plan.
\<close>

definition example_holdings :: dataframe where
  "example_holdings =
     \<lparr>columns = [''Fund'', ''PL''],
      floats = [],
      rows = [[(''Fund'', CStr ''A''), (''PL'', CInt 100)],
              [(''Fund'', CStr ''B''), (''PL'', CInt 50)],
              [(''Fund'', CStr ''A''), (''PL'', CInt 20)]]\<rparr>"

definition example_executor :: executor where
  "example_executor = \<lparr>trades_df = None, holdings_df = Some 0\<rparr>"

definition example_plan :: plan where
  "example_plan =
     [(''files'', JList [JStr ''holdings.csv'']), (''operation'', JStr ''aggregate''),
      (''metric'', JStr ''PL''), (''aggregation'', JStr ''sum''), (''group_by'', JStr ''Fund'')]"

section \<open>Properties of the validator\<close>

text \<open>A check that returns always returns \<^verbatim>\<open>False\<close> with its message.\<close>

lemma check_files_result:
  "check_files self fs = Continue \<or> (\<exists>m. check_files self fs = Return (False, m))"
  by (induction fs) auto

lemma check_aggregation_result:
  "check_aggregation p operation = Continue \<or>
   (\<exists>m. check_aggregation p operation = Return (False, m))"
  by (auto simp: check_aggregation_def split: option.splits)

lemma check_column_Return: "check_column df key msg = Return (b, m) \<Longrightarrow> \<not> b"
  by (auto simp: check_column_def split: option.splits sum.splits bool.splits if_splits)

lemma check_filter_items_Return: "check_filter_items df f items = Return (b, m) \<Longrightarrow> \<not> b"
proof (induction items)
  case Nil
  then show ?case by simp
next
  case (Cons item items)
  then show ?case
    by (auto split: sum.splits bool.splits step.splits if_splits dest: check_column_Return)
qed

lemma check_file_columns_Return: "check_file_columns df p f = Return (b, m) \<Longrightarrow> \<not> b"
  by (auto simp: check_file_columns_def check_group_by_def check_metric_def check_filters_def
      split: step.splits option.splits sum.splits if_splits
      dest: check_column_Return check_filter_items_Return)

lemma check_columns_Return: "check_columns self h p fs = Return (b, m) \<Longrightarrow> \<not> b"
proof (induction fs)
  case Nil
  then show ?case by simp
next
  case (Cons f fs)
  then show ?case
    by (auto split: step.splits dest: check_file_columns_Return)
qed

lemma check_files_not_Raise: "check_files self fs \<noteq> Raise e"
  using check_files_result [of self fs] by auto

lemma check_files_not_True: "check_files self fs \<noteq> Return (True, m)"
  using check_files_result [of self fs] by auto

lemma check_aggregation_not_True: "check_aggregation p operation \<noteq> Return (True, m)"
  using check_aggregation_result [of p operation] by auto

lemma check_columns_not_True: "check_columns self h p fs \<noteq> Return (True, m)"
  using check_columns_Return by blast

text \<open>The plans that pass validation.\<close>

lemma validate_plan_valid_iff:
  "validate_plan self h p = Inr (True, m) \<longleftrightarrow>
     m = NoMessage \<and>
     (\<exists>fs operation. map_of p ''files'' = Some (JList fs) \<and>
        map_of p ''operation'' = Some operation \<and>
        check_files self fs = Continue \<and>
        operation \<in> set ALLOWED_OPERATIONS \<and>
        check_aggregation p operation = Continue \<and>
        check_columns self h p fs = Continue)"
  by (auto simp: validate_plan_def check_files_not_True check_aggregation_not_True
      check_columns_not_True split: option.splits json.splits step.splits)

lemma validate_plan_operation:
  assumes "map_of p ''operation'' = Some operation" and "operation \<notin> set ALLOWED_OPERATIONS"
  shows "\<exists>msg. validate_plan self h p = Inr (False, msg)"
  using assms
  by (auto simp: validate_plan_def check_files_not_True check_files_not_Raise
      split: option.splits json.splits step.splits)

lemma execute_plan_invalid:
  "validate_plan self h p = Inr (False, msg) \<Longrightarrow>
   execute_plan self h p = (Inr (failure (Invalid msg)), h)"
  by (simp add: execute_plan_def)

text \<open>
  Claim C3, as stated: the validator rejects every plan whose list of table identifiers
  is empty. The two iterations over an empty \<^verbatim>\<open>files\<close> list do nothing and validation
  passes; the executor then fails on \<^verbatim>\<open>plan['files'][0]\<close> with an \<^verbatim>\<open>IndexError\<close>
  that the \<^verbatim>\<open>except\<close> clause turns into a failure response.
\<close>

theorem validate_plan_accepts_empty_files:
  "validate_plan example_executor [example_holdings]
     [(''files'', JList []), (''operation'', JStr ''count'')] = Inr (True, NoMessage) \<and>
   fst (execute_plan example_executor [example_holdings]
     [(''files'', JList []), (''operation'', JStr ''count'')]) = Inr (failure (Caught IndexError))"
  by (simp add: validate_plan_def execute_plan_def try_body_def check_aggregation_def
      ALLOWED_OPERATIONS_def)

text \<open>
  Claim C4: a plan with operation \<^verbatim>\<open>aggregate\<close> but no metric field is rejected at
  validation. The code does not: the metric is checked only when it is present and
  truthy, so validation passes; the executor then fails on \<^verbatim>\<open>df[None]\<close> with a
  \<^verbatim>\<open>KeyError\<close> that the \<^verbatim>\<open>except\<close> clause turns into a failure response.
\<close>

theorem validate_plan_accepts_missing_metric:
  "validate_plan example_executor [example_holdings]
     [(''files'', JList [JStr ''holdings.csv'']), (''operation'', JStr ''aggregate''),
      (''aggregation'', JStr ''sum'')] = Inr (True, NoMessage) \<and>
   fst (execute_plan example_executor [example_holdings]
     [(''files'', JList [JStr ''holdings.csv'']), (''operation'', JStr ''aggregate''),
      (''aggregation'', JStr ''sum'')]) = Inr (failure (Caught KeyError))"
  by (simp add: validate_plan_def execute_plan_def try_body_def run_filters_def finish_plan_def
      run_operation_def run_aggregate_def has_group_by_def reducer_of_def
      check_aggregation_def ALLOWED_OPERATIONS_def ALLOWED_FILES_def
      ALLOWED_AGGREGATIONS_def get_dataframe_def example_executor_def check_file_columns_def
      check_group_by_def check_metric_def check_filters_def)

text \<open>
  Claim C5: the validator never raises, also on plans with non-object filter entries.
  The code does: on a filter entry that is a number, \<^verbatim>\<open>'column' in filter_item\<close> raises
  \<^verbatim>\<open>TypeError\<close>; the validator runs outside the \<^verbatim>\<open>try\<close> statement of
  \<^verbatim>\<open>execute_plan\<close>, so the exception reaches the caller.
\<close>

theorem validate_plan_raises:
  "validate_plan example_executor [example_holdings]
     [(''files'', JList [JStr ''holdings.csv'']), (''operation'', JStr ''count''),
      (''filters'', JList [JInt 5])] = Inl TypeError \<and>
   fst (execute_plan example_executor [example_holdings]
     [(''files'', JList [JStr ''holdings.csv'']), (''operation'', JStr ''count''),
      (''filters'', JList [JInt 5])]) = Inl TypeError"
  by (simp add: validate_plan_def execute_plan_def check_aggregation_def ALLOWED_OPERATIONS_def
      ALLOWED_FILES_def get_dataframe_def example_executor_def check_file_columns_def
      check_group_by_def check_metric_def check_filters_def)

text \<open>
  Claim C6, as stated: every plan whose operation is other than \<^verbatim>\<open>count\<close> and
  \<^verbatim>\<open>aggregate\<close> fails validation and is not executed. A plan with operation
  \<^verbatim>\<open>group_by\<close> passes validation and enters the \<^verbatim>\<open>try\<close> body, where no branch binds
  \<open>result\<close>.
\<close>

theorem group_by_operation_passes_validation:
  "validate_plan example_executor [example_holdings]
     [(''files'', JList [JStr ''holdings.csv'']), (''operation'', JStr ''group_by'')]
     = Inr (True, NoMessage) \<and>
   fst (execute_plan example_executor [example_holdings]
     [(''files'', JList [JStr ''holdings.csv'']), (''operation'', JStr ''group_by'')])
     = Inr (failure (Caught UnboundLocalError))"
  by (simp add: validate_plan_def execute_plan_def try_body_def run_filters_def finish_plan_def
      run_operation_def check_aggregation_def ALLOWED_OPERATIONS_def ALLOWED_FILES_def
      get_dataframe_def example_executor_def check_file_columns_def
      check_group_by_def check_metric_def check_filters_def)

text \<open>
  Claim C6, amended: the whitelist has six operations (\<^verbatim>\<open>count\<close>, \<^verbatim>\<open>aggregate\<close>,
  \<^verbatim>\<open>group_by\<close>, \<^verbatim>\<open>sort\<close>, \<^verbatim>\<open>filter\<close>, \<^verbatim>\<open>limit\<close>); every plan whose operation is any
  other value fails validation and is not executed: \<^verbatim>\<open>execute_plan\<close> returns the
  validator's message in a failure response and the object store is as before.
\<close>

theorem operation_outside_whitelist_rejected:
  assumes "map_of p ''operation'' = Some operation"
    and "operation \<notin> set ALLOWED_OPERATIONS"
  shows "\<exists>msg. validate_plan self h p = Inr (False, msg) \<and>
           execute_plan self h p = (Inr (failure (Invalid msg)), h)"
  using validate_plan_operation [OF assms] execute_plan_invalid by blast

theorem operation_outside_whitelist_rejected_witness:
  "map_of [(''files'', JList [JStr ''holdings.csv'']), (''operation'', JStr ''join'')]
     ''operation'' = Some (JStr ''join'') \<and>
   JStr ''join'' \<notin> set ALLOWED_OPERATIONS \<and>
   (\<exists>msg. validate_plan example_executor [example_holdings]
             [(''files'', JList [JStr ''holdings.csv'']), (''operation'', JStr ''join'')]
             = Inr (False, msg) \<and>
          execute_plan example_executor [example_holdings]
             [(''files'', JList [JStr ''holdings.csv'']), (''operation'', JStr ''join'')]
             = (Inr (failure (Invalid msg)), [example_holdings]))"
proof -
  have a: "map_of [(''files'', JList [JStr ''holdings.csv'']), (''operation'', JStr ''join'')]
     ''operation'' = Some (JStr ''join'')"
    by simp
  have b: "JStr ''join'' \<notin> set ALLOWED_OPERATIONS"
    by (simp add: ALLOWED_OPERATIONS_def)
  from operation_outside_whitelist_rejected [OF a b, of example_executor "[example_holdings]"]
  show ?thesis using a b by blast
qed

section \<open>Properties of the chat endpoint\<close>

text \<open>
  Claim C8, as stated: every request whose question is empty or whitespace is rejected
  with status 400. While the chatbot is not initialised, the endpoint answers 503 before
  it looks at the question.
\<close>

theorem empty_question_uninitialised:
  "fst (chat None [] []) =
     Inr (HTTPException 503 ''Chatbot not initialized. Check OPENAI_API_KEY and data files.'')"
  by (simp add: chat_def)

text \<open>
  Claim C8, amended: a request whose question is empty or consists only of whitespace is
  rejected with status 400 when the chatbot is initialised, and with status 503 when it
  is not; in both cases no component is called (no plan is generated) and the object
  store is as before.
\<close>

theorem blank_question_rejected:
  assumes "list_all isspace question"
  shows "chat (Some c) h question = (Inr (HTTPException 400 ''Question cannot be empty''), [], h) \<and>
         chat None h question =
           (Inr (HTTPException 503
                   ''Chatbot not initialized. Check OPENAI_API_KEY and data files.''), [], h)"
proof -
  have "dropWhile isspace question = []"
    unfolding dropWhile_eq_Nil_conv using assms by (simp add: list_all_iff)
  then have "strip question = []"
    by (simp only: strip_def rev.simps dropWhile.simps)
  then show ?thesis
    by (simp add: chat_def)
qed

theorem blank_question_rejected_witness:
  "list_all isspace [32, 9, 160] \<and>
   chat (Some \<lparr>executor = example_executor, planner = (\<lambda>q cols. Some example_plan),
               explainer = (\<lambda>q p r. ''answer'')\<rparr>) [example_holdings] [32, 9, 160] =
     (Inr (HTTPException 400 ''Question cannot be empty''), [], [example_holdings])"
proof -
  have a: "list_all isspace [32, 9, 160]"
    by (simp add: isspace_def)
  from blank_question_rejected [OF a] show ?thesis using a by blast
qed

section \<open>Properties of the executor\<close>

lemmas model_defs =
  validate_plan_def execute_plan_def try_body_def run_filters_def finish_plan_def
  run_operation_def run_count_def run_aggregate_def has_group_by_def reducer_of_def
  series_of_def groupby_def group_keys_def group_rows_def sort_by_def
  column_kind_def wrap64_def abs_total_def cell_at_def apply_sort_def apply_limit_def py_sorted_def
  item_before_def apply_filter_def filter_op_of_def filter_frame_def select_rows_def
  order_mask_def alloc_def
  check_aggregation_def check_file_columns_def check_group_by_def check_metric_def
  check_filters_def check_column_def frame_of_def get_dataframe_def
  ALLOWED_FILES_def ALLOWED_OPERATIONS_def ALLOWED_AGGREGATIONS_def
  example_executor_def example_holdings_def example_plan_def outcome_def failure_def

text \<open>Every step of the executor only adds new dataframes to the object store.\<close>

lemma apply_filter_extends: "\<exists>new. snd (apply_filter h df item) = h @ new"
  by (auto simp: apply_filter_def alloc_def split: sum.splits option.splits)

lemma apply_filters_extends: "\<exists>new. snd (apply_filters h df items) = h @ new"
proof (induction items arbitrary: h df)
  case Nil
  then show ?case by simp
next
  case (Cons item items)
  obtain r h1 where step: "apply_filter h df item = (r, h1)"
    by (cases "apply_filter h df item")
  obtain n1 where h1: "h1 = h @ n1"
    using apply_filter_extends [of h df item] step by auto
  show ?case
  proof (cases r)
    case (Inl e)
    then show ?thesis using step h1 by simp
  next
    case (Inr df')
    obtain n2 where "snd (apply_filters h1 df' items) = h1 @ n2"
      using Cons.IH by blast
    then show ?thesis using step h1 Inr by simp
  qed
qed

lemma run_filters_extends: "\<exists>new. snd (run_filters h df p) = h @ new"
  using apply_filters_extends by (auto simp: run_filters_def split: option.splits sum.splits)

lemma try_body_extends: "\<exists>new. snd (try_body self h p) = h @ new"
proof -
  have "\<And>df. \<exists>new. snd (case run_filters h df p of
                       (Inl e, h') \<Rightarrow> (Inl e, h')
                     | (Inr df', h') \<Rightarrow> (finish_plan (h' ! df') p, h')) = h @ new"
    subgoal for df
      using run_filters_extends [of h df p]
      by (cases "run_filters h df p") (auto split: sum.splits)
    done
  then show ?thesis
    by (auto simp: try_body_def split: option.splits sum.splits)
qed

lemma execute_plan_extends: "\<exists>new. snd (execute_plan self h p) = h @ new"
proof -
  obtain r h1 where tb: "try_body self h p = (r, h1)"
    by (cases "try_body self h p")
  then obtain new where "h1 = h @ new"
    using try_body_extends [of self h p] by auto
  then show ?thesis
    using tb by (auto simp: execute_plan_def split: sum.splits exn.splits)
qed

text \<open>
  Claim C9: executing any plan leaves the loaded tables unchanged. Whatever the plan and
  whether its execution succeeds, fails or raises, every dataframe that was in the object
  store before the call is the same afterwards, and the store only grows: filters bind
  the local \<open>df\<close> to new dataframes. \<^verbatim>\<open>execute_plan\<close> assigns no field of the executor,
  so \<^verbatim>\<open>trades_df\<close> and \<^verbatim>\<open>holdings_df\<close> refer to the same, unchanged dataframes.
\<close>

theorem execute_plan_preserves_tables:
  assumes "a < length h"
  shows "snd (execute_plan self h p) ! a = h ! a \<and> length h \<le> length (snd (execute_plan self h p))"
proof -
  obtain new where "snd (execute_plan self h p) = h @ new"
    using execute_plan_extends by blast
  then show ?thesis using assms by (simp add: nth_append)
qed

theorem execute_plan_preserves_tables_witness:
  "(0::nat) < length [example_holdings] \<and>
   snd (execute_plan example_executor [example_holdings]
     ((''filters'', JList [JObj [(''column'', JStr ''PL''), (''operator'', JStr ''>''),
         (''value'', JInt 30)]]) # example_plan)) ! 0 = [example_holdings] ! 0 \<and>
   length (snd (execute_plan example_executor [example_holdings]
     ((''filters'', JList [JObj [(''column'', JStr ''PL''), (''operator'', JStr ''>''),
         (''value'', JInt 30)]]) # example_plan))) = 2"
proof -
  have a: "(0::nat) < length [example_holdings]" by simp
  have b: "length (snd (execute_plan example_executor [example_holdings]
     ((''filters'', JList [JObj [(''column'', JStr ''PL''), (''operator'', JStr ''>''),
         (''value'', JInt 30)]]) # example_plan))) = 2"
    by (simp add: model_defs)
  from execute_plan_preserves_tables [OF a] a b show ?thesis by blast
qed

text \<open>The validator accepts a plan without one of its filter clauses if it accepts the plan.\<close>

lemma check_filter_items_append:
  "check_filter_items df f (xs @ ys) =
     (case check_filter_items df f xs of Continue \<Rightarrow> check_filter_items df f ys | r \<Rightarrow> r)"
proof (induction xs)
  case Nil
  show ?case by simp
next
  case (Cons x xs)
  show ?case
  proof (cases "py_contains ''column'' x")
    case (Inl e)
    then show ?thesis by simp
  next
    case (Inr b)
    show ?thesis
    proof (cases b)
      case False
      then show ?thesis using Inr Cons.IH by simp
    next
      case True
      show ?thesis
      proof (cases "py_getitem x ''column''")
        case (Inl e)
        then show ?thesis using Inr True by simp
      next
        case c: (Inr c)
        show ?thesis
          using Inr True c Cons.IH
          by (cases "check_column df c (FilterColumnNotFound c f)") simp_all
      qed
    qed
  qed
qed

lemma check_filter_items_tail:
  assumes "check_filter_items df f (x # post) = Continue"
  shows "check_filter_items df f post = Continue"
proof (cases "py_contains ''column'' x")
  case (Inl e)
  then show ?thesis using assms by simp
next
  case (Inr b)
  show ?thesis
  proof (cases b)
    case False
    then show ?thesis using Inr assms by simp
  next
    case True
    show ?thesis
    proof (cases "py_getitem x ''column''")
      case (Inl e)
      then show ?thesis using Inr True assms by simp
    next
      case c: (Inr c)
      show ?thesis
        using Inr True c assms
        by (cases "check_column df c (FilterColumnNotFound c f)") simp_all
    qed
  qed
qed

lemma check_filter_items_drop:
  assumes "check_filter_items df f (pre @ x # post) = Continue"
  shows "check_filter_items df f (pre @ post) = Continue"
proof -
  have a: "check_filter_items df f pre = Continue"
    using assms unfolding check_filter_items_append [of df f pre "x # post"]
    by (cases "check_filter_items df f pre") simp_all
  then have "check_filter_items df f (x # post) = Continue"
    using assms unfolding check_filter_items_append [of df f pre "x # post"] by simp
  then have "check_filter_items df f post = Continue"
    by (rule check_filter_items_tail)
  then show ?thesis
    using a unfolding check_filter_items_append [of df f pre post] by simp
qed

lemma check_file_columns_drop:
  assumes "map_of p ''filters'' = Some (JList (pre @ x # post))"
    and "check_file_columns df p f = Continue"
  shows "check_file_columns df ((''filters'', JList (pre @ post)) # p) f = Continue"
proof -
  have g: "check_group_by df p f = Continue" and m: "check_metric df p f = Continue"
    and fl: "check_filters df p f = Continue"
    using assms(2) by (auto simp: check_file_columns_def split: step.splits)
  from fl assms(1) have "check_filter_items df f (pre @ x # post) = Continue"
    by (simp add: check_filters_def)
  then have "check_filter_items df f (pre @ post) = Continue"
    by (rule check_filter_items_drop)
  then have "check_filters df ((''filters'', JList (pre @ post)) # p) f = Continue"
    by (simp add: check_filters_def)
  moreover have "check_group_by df ((''filters'', JList (pre @ post)) # p) f = Continue"
    using g by (simp add: check_group_by_def)
  moreover have "check_metric df ((''filters'', JList (pre @ post)) # p) f = Continue"
    using m by (simp add: check_metric_def)
  ultimately show ?thesis
    by (simp add: check_file_columns_def)
qed

lemma check_columns_drop:
  assumes "map_of p ''filters'' = Some (JList (pre @ x # post))"
    and "check_columns self h p fs = Continue"
  shows "check_columns self h ((''filters'', JList (pre @ post)) # p) fs = Continue"
  using assms(2)
proof (induction fs)
  case Nil
  then show ?case by simp
next
  case (Cons f fs)
  from Cons.prems have a: "check_file_columns (frame_of self h f) p f = Continue"
    and b: "check_columns self h p fs = Continue"
    by (auto split: step.splits)
  show ?case
    using check_file_columns_drop [OF assms(1) a] Cons.IH [OF b] by simp
qed

lemma validate_plan_drop:
  assumes "map_of p ''filters'' = Some (JList (pre @ x # post))"
    and "validate_plan self h p = Inr (True, NoMessage)"
  shows "validate_plan self h ((''filters'', JList (pre @ post)) # p) = Inr (True, NoMessage)"
proof -
  from assms(2) obtain fs operation where
    "map_of p ''files'' = Some (JList fs)" "map_of p ''operation'' = Some operation"
    "check_files self fs = Continue" "operation \<in> set ALLOWED_OPERATIONS"
    "check_aggregation p operation = Continue" "check_columns self h p fs = Continue"
    unfolding validate_plan_valid_iff by blast
  moreover from this have "check_columns self h ((''filters'', JList (pre @ post)) # p) fs = Continue"
    using check_columns_drop [OF assms(1)] by blast
  moreover have "check_aggregation ((''filters'', JList (pre @ post)) # p) operation
      = check_aggregation p operation"
    by (simp add: check_aggregation_def)
  ultimately show ?thesis
    unfolding validate_plan_valid_iff by simp
qed

text \<open>A filter clause that takes no branch can be dropped from the loop.\<close>

lemma apply_filters_append:
  "apply_filters h df (xs @ ys) =
     (case apply_filters h df xs of
        (Inl e, h') \<Rightarrow> (Inl e, h')
      | (Inr df', h') \<Rightarrow> apply_filters h' df' ys)"
  by (induction xs arbitrary: h df) (auto split: prod.splits sum.splits)

lemma apply_filter_unsupported:
  assumes "filter_op_of (case map_of clause ''operator'' of None \<Rightarrow> JStr ''=='' | Some x \<Rightarrow> x) = None"
  shows "apply_filter h df (JObj clause) = (Inr df, h)"
  using assms by (simp add: apply_filter_def)

lemma run_filters_drop:
  assumes "map_of p ''filters'' = Some (JList (pre @ x # post))"
    and "\<And>h df. apply_filter h df x = (Inr df, h)"
  shows "run_filters h df ((''filters'', JList (pre @ post)) # p) = run_filters h df p"
proof -
  have "run_filters h df p = apply_filters h df (pre @ x # post)"
    using assms(1) by (simp add: run_filters_def)
  also have "\<dots> = apply_filters h df (pre @ post)"
    using assms(2) by (simp add: apply_filters_append split: prod.splits sum.splits)
  also have "\<dots> = run_filters h df ((''filters'', JList (pre @ post)) # p)"
    by (cases "pre @ post") (simp_all add: run_filters_def)
  finally show ?thesis by simp
qed

lemma has_group_by_filters: "has_group_by ((''filters'', v) # p) = has_group_by p"
  by (simp add: has_group_by_def)

lemma run_count_filters: "run_count df ((''filters'', v) # p) = run_count df p"
  by (simp add: run_count_def has_group_by_filters)

lemma run_aggregate_filters: "run_aggregate df ((''filters'', v) # p) = run_aggregate df p"
  by (simp add: run_aggregate_def has_group_by_filters)

lemma run_operation_filters: "run_operation df ((''filters'', v) # p) = run_operation df p"
  by (simp add: run_operation_def run_count_filters run_aggregate_filters split: option.splits)

lemma apply_sort_filters: "apply_sort ((''filters'', v) # p) r = apply_sort p r"
  by (simp add: apply_sort_def)

lemma apply_limit_filters: "apply_limit ((''filters'', v) # p) r = apply_limit p r"
  by (simp add: apply_limit_def)

lemma finish_plan_filters:
  "outcome (finish_plan df ((''filters'', v) # p)) = outcome (finish_plan df p)"
  by (simp add: finish_plan_def outcome_def run_operation_filters apply_sort_filters
      apply_limit_filters split: sum.splits)

lemma try_body_drop:
  assumes "map_of p ''filters'' = Some (JList (pre @ x # post))"
    and "\<And>h df. apply_filter h df x = (Inr df, h)"
  shows "outcome (fst (try_body self h ((''filters'', JList (pre @ post)) # p)))
           = outcome (fst (try_body self h p)) \<and>
         snd (try_body self h ((''filters'', JList (pre @ post)) # p)) = snd (try_body self h p)"
proof -
  let ?q = "(''filters'', JList (pre @ post)) # p"
  have rf: "\<And>df. run_filters h df ?q = run_filters h df p"
    using run_filters_drop [OF assms] by simp
  have tail: "\<And>df.
      outcome (fst (case run_filters h df p of
                       (Inl e, h') \<Rightarrow> (Inl e, h')
                     | (Inr df', h') \<Rightarrow> (finish_plan (h' ! df') ?q, h'))) =
      outcome (fst (case run_filters h df p of
                       (Inl e, h') \<Rightarrow> (Inl e, h')
                     | (Inr df', h') \<Rightarrow> (finish_plan (h' ! df') p, h'))) \<and>
      snd (case run_filters h df p of
                       (Inl e, h') \<Rightarrow> (Inl e, h')
                     | (Inr df', h') \<Rightarrow> (finish_plan (h' ! df') ?q, h')) =
      snd (case run_filters h df p of
                       (Inl e, h') \<Rightarrow> (Inl e, h')
                     | (Inr df', h') \<Rightarrow> (finish_plan (h' ! df') p, h'))"
    subgoal for df
      by (cases "run_filters h df p"; cases "fst (run_filters h df p)")
        (simp_all add: finish_plan_filters)
    done
  show ?thesis
    by (simp add: try_body_def rf tail split: option.splits sum.splits)
qed

lemma execute_plan_valid:
  assumes "validate_plan self h p = Inr (True, m)" and "try_body self h p = (r, h')"
  shows "snd (execute_plan self h p) = h' \<and>
         outcome (fst (execute_plan self h p)) =
           (case r of
              Inl e \<Rightarrow> if e = Unmodelled then Inl Unmodelled
                       else Inr (False, None, Some (Caught e))
            | Inr x \<Rightarrow> outcome (Inr x))"
proof (cases r)
  case (Inl e)
  then show ?thesis
    using assms by (cases e) (simp_all add: execute_plan_def outcome_def failure_def)
next
  case (Inr x)
  then show ?thesis
    using assms by (simp add: execute_plan_def)
qed

text \<open>
  Claim C10: a filter clause whose operator is not one of \<^verbatim>\<open>==\<close>, \<^verbatim>\<open>!=\<close>, \<^verbatim>\<open>>\<close>,
  \<^verbatim>\<open><\<close>, \<^verbatim>\<open>>=\<close>, \<^verbatim>\<open><=\<close>, \<^verbatim>\<open>in\<close> is silently ignored. In a plan that passes
  validation, the pass of the filter loop on such a clause leaves \<open>df\<close> as it is, and
  \<^verbatim>\<open>execute_plan\<close> gives the same success flag, result and error, and the same object
  store, as for the plan without the clause; the witness is a plan with the operator
  \<^verbatim>\<open>like\<close> that returns \<^verbatim>\<open>success=true\<close>.
\<close>

theorem unsupported_filter_operator_ignored:
  assumes "validate_plan self h p = Inr (True, NoMessage)"
    and "map_of p ''filters'' = Some (JList (pre @ JObj clause # post))"
    and "filter_op_of (case map_of clause ''operator'' of None \<Rightarrow> JStr ''=='' | Some x \<Rightarrow> x) = None"
  shows "(\<forall>h' df. apply_filter h' df (JObj clause) = (Inr df, h')) \<and>
         outcome (fst (execute_plan self h p)) =
           outcome (fst (execute_plan self h ((''filters'', JList (pre @ post)) # p))) \<and>
         snd (execute_plan self h p) =
           snd (execute_plan self h ((''filters'', JList (pre @ post)) # p))"
proof -
  let ?q = "(''filters'', JList (pre @ post)) # p"
  have ign: "\<And>h' df. apply_filter h' df (JObj clause) = (Inr df, h')"
    using assms(3) by (rule apply_filter_unsupported)
  have vq: "validate_plan self h ?q = Inr (True, NoMessage)"
    using validate_plan_drop [OF assms(2) assms(1)] .
  obtain r1 h1 where t1: "try_body self h p = (r1, h1)" by (cases "try_body self h p")
  obtain r2 h2 where t2: "try_body self h ?q = (r2, h2)" by (cases "try_body self h ?q")
  have eq: "h2 = h1" "outcome r2 = outcome r1"
    using try_body_drop [OF assms(2) ign, of self h] t1 t2 by auto
  have same: "(case r2 of
              Inl e \<Rightarrow> if e = Unmodelled then Inl Unmodelled
                       else Inr (False, None, Some (Caught e))
            | Inr x \<Rightarrow> outcome (Inr x)) =
          (case r1 of
              Inl e \<Rightarrow> if e = Unmodelled then Inl Unmodelled
                       else Inr (False, None, Some (Caught e))
            | Inr x \<Rightarrow> outcome (Inr x))"
    using eq(2) by (cases r1; cases r2) (simp_all add: outcome_def)
  show ?thesis
    using execute_plan_valid [OF assms(1) t1] execute_plan_valid [OF vq t2] eq(1) same ign
    by simp
qed

theorem unsupported_filter_operator_ignored_witness:
  "validate_plan example_executor [example_holdings]
     ((''filters'', JList ([] @ JObj [(''column'', JStr ''Fund''), (''operator'', JStr ''like''),
         (''value'', JStr ''A'')] # [])) # example_plan) = Inr (True, NoMessage) \<and>
   filter_op_of (case map_of [(''column'', JStr ''Fund''), (''operator'', JStr ''like''),
         (''value'', JStr ''A'')] ''operator'' of None \<Rightarrow> JStr ''=='' | Some x \<Rightarrow> x) = None \<and>
   outcome (fst (execute_plan example_executor [example_holdings]
     ((''filters'', JList ([] @ JObj [(''column'', JStr ''Fund''), (''operator'', JStr ''like''),
         (''value'', JStr ''A'')] # [])) # example_plan))) =
     Inr (True, Some (Mapping [(CStr ''A'', SInt 120), (CStr ''B'', SInt 50)]), None)"
proof -
  let ?c = "[(''column'', JStr ''Fund''), (''operator'', JStr ''like''), (''value'', JStr ''A'')]"
  let ?p = "(''filters'', JList ([] @ JObj ?c # [])) # example_plan"
  have a: "validate_plan example_executor [example_holdings] ?p = Inr (True, NoMessage)"
    by (simp add: model_defs)
  have b: "map_of ?p ''filters'' = Some (JList ([] @ JObj ?c # []))"
    by simp
  have c: "filter_op_of (case map_of ?c ''operator'' of None \<Rightarrow> JStr ''=='' | Some x \<Rightarrow> x) = None"
    by (simp add: filter_op_of_def)
  have d: "outcome (fst (execute_plan example_executor [example_holdings]
             ((''filters'', JList ([] @ [])) # ?p))) =
           Inr (True, Some (Mapping [(CStr ''A'', SInt 120), (CStr ''B'', SInt 50)]), None)"
    by (simp add: model_defs)
  from unsupported_filter_operator_ignored [OF a b c] d a c show ?thesis
    by simp
qed

section \<open>Rejection of invalid plans\<close>

text \<open>The validator reads the column names of the tables and nothing else of them.\<close>

lemma check_column_schema:
  assumes "map_option columns df' = map_option columns df"
  shows "check_column df' key msg = check_column df key msg"
  using assms by (cases df; cases df') (simp_all add: check_column_def)

lemma check_filter_items_schema:
  assumes "map_option columns df' = map_option columns df"
  shows "check_filter_items df' f items = check_filter_items df f items"
proof (induction items)
  case Nil
  show ?case by simp
next
  case (Cons x xs)
  have "\<And>c. check_column df' c (FilterColumnNotFound c f) = check_column df c (FilterColumnNotFound c f)"
    using assms by (rule check_column_schema)
  then show ?case
    using Cons.IH by (simp cong: sum.case_cong bool.case_cong step.case_cong)
qed

lemma check_file_columns_schema:
  assumes "map_option columns df' = map_option columns df"
  shows "check_file_columns df' p f = check_file_columns df p f"
  by (simp add: check_file_columns_def check_group_by_def check_metric_def check_filters_def
      check_column_schema [OF assms] check_filter_items_schema [OF assms]
      cong: option.case_cong step.case_cong sum.case_cong if_cong)

lemma check_columns_schema:
  assumes "\<forall>f. map_option columns (frame_of self h' f) = map_option columns (frame_of self h f)"
  shows "check_columns self h' p fs = check_columns self h p fs"
proof (induction fs)
  case Nil
  show ?case by simp
next
  case (Cons f fs)
  have "check_file_columns (frame_of self h' f) p f = check_file_columns (frame_of self h f) p f"
    using assms by (intro check_file_columns_schema) simp
  then show ?case using Cons.IH by (simp cong: step.case_cong)
qed

lemma validate_plan_schema:
  assumes "\<forall>f. map_option columns (frame_of self h' f) = map_option columns (frame_of self h f)"
  shows "validate_plan self h' p = validate_plan self h p"
  by (simp add: validate_plan_def check_columns_schema [OF assms]
      cong: option.case_cong json.case_cong step.case_cong if_cong)

text \<open>A plan that passes validation names no column that a listed table lacks.\<close>

lemma check_columns_member:
  assumes "check_columns self h p fs = Continue" and "f \<in> set fs"
  shows "check_file_columns (frame_of self h f) p f = Continue"
  using assms
proof (induction fs)
  case Nil
  then show ?case by simp
next
  case (Cons g fs)
  from Cons.prems(1) have hd: "check_file_columns (frame_of self h g) p g = Continue"
    by (cases "check_file_columns (frame_of self h g) p g") simp_all
  with Cons.prems(1) have tl: "check_columns self h p fs = Continue"
    by simp
  show ?case
    using Cons.prems(2) hd Cons.IH [OF tl] by auto
qed

lemma check_file_columns_Continue:
  assumes "check_file_columns df p f = Continue"
  shows "check_group_by df p f = Continue" and "check_metric df p f = Continue"
    and "check_filters df p f = Continue"
proof -
  show g: "check_group_by df p f = Continue"
    using assms by (cases "check_group_by df p f") (simp_all add: check_file_columns_def)
  show m: "check_metric df p f = Continue"
    using assms g by (cases "check_metric df p f") (simp_all add: check_file_columns_def)
  show "check_filters df p f = Continue"
    using assms g m by (simp add: check_file_columns_def)
qed

lemma check_column_missing:
  assumes "c \<notin> set (columns df)"
  shows "check_column (Some df) (JStr c) msg = Return (False, msg)"
  using assms by (simp add: check_column_def)

lemma check_filter_items_head:
  assumes "check_filter_items df f (x # post) = Continue"
  shows "check_filter_items df f [x] = Continue"
proof (cases "py_contains ''column'' x")
  case (Inl e)
  then show ?thesis using assms by simp
next
  case (Inr b)
  show ?thesis
  proof (cases b)
    case False
    then show ?thesis using Inr assms by simp
  next
    case True
    show ?thesis
    proof (cases "py_getitem x ''column''")
      case (Inl e)
      then show ?thesis using Inr True assms by simp
    next
      case c: (Inr c)
      show ?thesis
        using Inr True c assms
        by (cases "check_column df c (FilterColumnNotFound c f)") simp_all
    qed
  qed
qed

lemma check_filter_items_member:
  assumes "check_filter_items df f items = Continue" and "x \<in> set items"
  shows "check_filter_items df f [x] = Continue"
proof -
  obtain pre post where items: "items = pre @ x # post"
    using assms(2) by (meson split_list)
  have a: "check_filter_items df f pre = Continue"
    using assms(1) unfolding items check_filter_items_append [of df f pre "x # post"]
    by (cases "check_filter_items df f pre") simp_all
  then have "check_filter_items df f (x # post) = Continue"
    using assms(1) unfolding items check_filter_items_append [of df f pre "x # post"] by simp
  then show ?thesis
    by (rule check_filter_items_head)
qed

lemma filter_clause_missing:
  assumes "map_of kv ''column'' = Some (JStr c)" and "c \<notin> set (columns df)"
  shows "check_filter_items (Some df) f [JObj kv] = Return (False, FilterColumnNotFound (JStr c) f)"
  using assms by (simp add: check_column_def)

lemma missing_column_not_valid:
  assumes files: "map_of p ''files'' = Some (JList fs)" and f: "f \<in> set fs"
    and df: "frame_of self h f = Some df" and c: "c \<notin> set (columns df)"
    and named: "(map_of p ''group_by'' = Some (JStr c) \<and> c \<noteq> []) \<or>
       (map_of p ''metric'' = Some (JStr c) \<and> c \<noteq> []) \<or>
       (\<exists>items kv. map_of p ''filters'' = Some (JList items) \<and> JObj kv \<in> set items \<and>
          map_of kv ''column'' = Some (JStr c))"
  shows "validate_plan self h p \<noteq> Inr (True, m)"
proof
  assume "validate_plan self h p = Inr (True, m)"
  then have "check_columns self h p fs = Continue"
    using files unfolding validate_plan_valid_iff by auto
  then have cont: "check_file_columns (Some df) p f = Continue"
    using check_columns_member [OF _ f] df by metis
  note parts = check_file_columns_Continue [OF cont]
  from named show False
  proof (elim disjE conjE exE)
    assume "map_of p ''group_by'' = Some (JStr c)" "c \<noteq> []"
    then show False
      using parts(1) check_column_missing [OF c] by (simp add: check_group_by_def)
  next
    assume "map_of p ''metric'' = Some (JStr c)" "c \<noteq> []"
    then show False
      using parts(2) check_column_missing [OF c] by (simp add: check_metric_def)
  next
    fix items kv
    assume fl: "map_of p ''filters'' = Some (JList items)" and mem: "JObj kv \<in> set items"
      and col: "map_of kv ''column'' = Some (JStr c)"
    from parts(3) fl have "check_filter_items (Some df) f items = Continue"
      by (simp add: check_filters_def)
    then have "check_filter_items (Some df) f [JObj kv] = Continue"
      using mem by (rule check_filter_items_member)
    then show False
      using filter_clause_missing [OF col c, of f] by simp
  qed
qed

lemma aggregation_not_valid:
  assumes "map_of p ''operation'' = Some (JStr ''aggregate'')"
    and "map_of p ''aggregation'' = Some a" and "a \<notin> set ALLOWED_AGGREGATIONS"
  shows "validate_plan self h p \<noteq> Inr (True, m)"
  using assms unfolding validate_plan_valid_iff by (auto simp: check_aggregation_def)

lemma operation_not_valid:
  assumes "map_of p ''operation'' = Some operation" and "operation \<notin> set ALLOWED_OPERATIONS"
  shows "validate_plan self h p \<noteq> Inr (True, m)"
  using assms unfolding validate_plan_valid_iff by auto

text \<open>
  Claim C2, as stated: every plan whose aggregation is outside the whitelist, or that
  names as group-by or metric a column that the table lacks, is rejected with
  \<^verbatim>\<open>success=false\<close>. First, the aggregation is validated only when the operation is
  \<^verbatim>\<open>aggregate\<close>: a \<^verbatim>\<open>count\<close> plan with the aggregation \<^verbatim>\<open>median\<close> succeeds. Second,
  the group-by and the metric are validated only when they are truthy: the empty string
  is no column of the table, and a \<^verbatim>\<open>count\<close> plan with it as group-by, or as metric,
  succeeds.
\<close>

theorem unvalidated_fields_accepted:
  "JStr ''median'' \<notin> set ALLOWED_AGGREGATIONS \<and>
   fst (execute_plan example_executor [example_holdings]
     [(''files'', JList [JStr ''holdings.csv'']), (''operation'', JStr ''count''),
      (''aggregation'', JStr ''median'')]) =
   Inr \<lparr>success = True, result = Some (Scalar (SInt 3)), error = None,
        plan = Some [(''files'', JList [JStr ''holdings.csv'']), (''operation'', JStr ''count''),
                     (''aggregation'', JStr ''median'')]\<rparr> \<and>
   [] \<notin> set (columns example_holdings) \<and>
   fst (execute_plan example_executor [example_holdings]
     [(''files'', JList [JStr ''holdings.csv'']), (''operation'', JStr ''count''),
      (''group_by'', JStr [])]) =
   Inr \<lparr>success = True, result = Some (Scalar (SInt 3)), error = None,
        plan = Some [(''files'', JList [JStr ''holdings.csv'']), (''operation'', JStr ''count''),
                     (''group_by'', JStr [])]\<rparr> \<and>
   fst (execute_plan example_executor [example_holdings]
     [(''files'', JList [JStr ''holdings.csv'']), (''operation'', JStr ''count''),
      (''metric'', JStr [])]) =
   Inr \<lparr>success = True, result = Some (Scalar (SInt 3)), error = None,
        plan = Some [(''files'', JList [JStr ''holdings.csv'']), (''operation'', JStr ''count''),
                     (''metric'', JStr [])]\<rparr>"
  by (simp add: model_defs)

text \<open>
  Claim C2, amended: let the validator return on a plan (that is, not raise on a
  malformed field) whose operation is outside the whitelist, or whose operation is
  \<^verbatim>\<open>aggregate\<close> with an aggregation outside the whitelist, or that names as group-by or
  metric column a non-empty string, or as filter column any string, that is not a column
  of one of its listed, loaded tables. Then the validator rejects the plan and
  \<^verbatim>\<open>execute_plan\<close> returns \<^verbatim>\<open>success=false\<close> with the validator's message. No table
  data is touched: the object store is as before, and the answer is the same for any
  rows of the tables, as long as their column names are the same.
\<close>

theorem invalid_plan_rejected:
  assumes returns: "validate_plan self h p = Inr v"
    and bad:
      "(\<exists>operation. map_of p ''operation'' = Some operation \<and>
          operation \<notin> set ALLOWED_OPERATIONS) \<or>
       (map_of p ''operation'' = Some (JStr ''aggregate'') \<and>
          (\<exists>a. map_of p ''aggregation'' = Some a \<and> a \<notin> set ALLOWED_AGGREGATIONS)) \<or>
       (\<exists>fs f df c. map_of p ''files'' = Some (JList fs) \<and> f \<in> set fs \<and>
          frame_of self h f = Some df \<and> c \<notin> set (columns df) \<and>
          ((map_of p ''group_by'' = Some (JStr c) \<and> c \<noteq> []) \<or>
           (map_of p ''metric'' = Some (JStr c) \<and> c \<noteq> []) \<or>
           (\<exists>items kv. map_of p ''filters'' = Some (JList items) \<and> JObj kv \<in> set items \<and>
              map_of kv ''column'' = Some (JStr c))))"
  shows "\<exists>msg. v = (False, msg) \<and>
           execute_plan self h p = (Inr (failure (Invalid msg)), h) \<and>
           (\<forall>h'. (\<forall>f. map_option columns (frame_of self h' f) =
                        map_option columns (frame_of self h f)) \<longrightarrow>
                 execute_plan self h' p = (Inr (failure (Invalid msg)), h'))"
proof -
  have nv: "\<And>m. validate_plan self h p \<noteq> Inr (True, m)"
    using bad operation_not_valid aggregation_not_valid missing_column_not_valid
    by (elim disjE conjE exE) blast+
  obtain b msg where v: "v = (b, msg)" by (cases v)
  with returns nv have b: "b = False" by (cases b) auto
  have rej: "validate_plan self h p = Inr (False, msg)"
    using returns v b by simp
  have "execute_plan self h' p = (Inr (failure (Invalid msg)), h')"
    if "\<forall>f. map_option columns (frame_of self h' f) = map_option columns (frame_of self h f)"
    for h'
    using validate_plan_schema [OF that, of p] rej by (simp add: execute_plan_invalid)
  then show ?thesis
    using v b rej execute_plan_invalid by blast
qed

theorem invalid_plan_rejected_witness:
  "validate_plan example_executor [example_holdings]
     [(''files'', JList [JStr ''holdings.csv'']), (''operation'', JStr ''count''),
      (''group_by'', JStr ''Region'')] =
     Inr (False, ColumnNotFound (JStr ''Region'') (JStr ''holdings.csv'')) \<and>
   frame_of example_executor [example_holdings] (JStr ''holdings.csv'') = Some example_holdings \<and>
   ''Region'' \<notin> set (columns example_holdings) \<and>
   execute_plan example_executor [example_holdings]
     [(''files'', JList [JStr ''holdings.csv'']), (''operation'', JStr ''count''),
      (''group_by'', JStr ''Region'')] =
     (Inr (failure (Invalid (ColumnNotFound (JStr ''Region'') (JStr ''holdings.csv'')))),
      [example_holdings]) \<and>
   execute_plan example_executor [example_holdings\<lparr>rows := []\<rparr>]
     [(''files'', JList [JStr ''holdings.csv'']), (''operation'', JStr ''count''),
      (''group_by'', JStr ''Region'')] =
     (Inr (failure (Invalid (ColumnNotFound (JStr ''Region'') (JStr ''holdings.csv'')))),
      [example_holdings\<lparr>rows := []\<rparr>])"
proof -
  let ?p = "[(''files'', JList [JStr ''holdings.csv'']), (''operation'', JStr ''count''),
      (''group_by'', JStr ''Region'')]"
  let ?v = "(False, ColumnNotFound (JStr ''Region'') (JStr ''holdings.csv''))"
  have a: "validate_plan example_executor [example_holdings] ?p = Inr ?v"
    by (simp add: model_defs)
  have fr: "frame_of example_executor [example_holdings] (JStr ''holdings.csv'')
      = Some example_holdings"
    by (simp add: frame_of_def get_dataframe_def example_executor_def)
  have col: "''Region'' \<notin> set (columns example_holdings)"
    by (simp add: example_holdings_def)
  have third: "\<exists>fs f df c. map_of ?p ''files'' = Some (JList fs) \<and> f \<in> set fs \<and>
          frame_of example_executor [example_holdings] f = Some df \<and> c \<notin> set (columns df) \<and>
          ((map_of ?p ''group_by'' = Some (JStr c) \<and> c \<noteq> []) \<or>
           (map_of ?p ''metric'' = Some (JStr c) \<and> c \<noteq> []) \<or>
           (\<exists>items kv. map_of ?p ''filters'' = Some (JList items) \<and> JObj kv \<in> set items \<and>
              map_of kv ''column'' = Some (JStr c)))"
    using fr col
    by (intro exI [of _ "[JStr ''holdings.csv'']"] exI [of _ "JStr ''holdings.csv''"]
        exI [of _ example_holdings] exI [of _ "''Region''"]) simp
  have same: "\<forall>f. map_option columns (frame_of example_executor [example_holdings\<lparr>rows := []\<rparr>] f) =
                  map_option columns (frame_of example_executor [example_holdings] f)"
    by (simp add: frame_of_def get_dataframe_def example_executor_def)
  from invalid_plan_rejected [OF a disjI2 [OF disjI2 [OF third]]] same
  show ?thesis
    using a fr col by auto
qed

section \<open>Grouped sums\<close>






























section \<open>Sorting and truncating a result mapping\<close>









































section \<open>The files of a plan\<close>

lemma check_files_Continue_iff:
  "check_files self fs = Continue \<longleftrightarrow>
     (\<forall>f\<in>set fs. f \<in> set ALLOWED_FILES \<and> get_dataframe self f \<noteq> None)"
  by (induction fs) simp_all

text \<open>
  Claim C3, amended: the validator rejects every plan whose list of table identifiers
  contains an identifier other than the two known tables or names a table that is not
  loaded, and validation passes only if the files field is a list of loaded known tables.
  The list may be empty: no check asks for an entry. A plan with an empty list that
  passes validation is never answered: \<^verbatim>\<open>execute_plan\<close> returns a failure response
  from its \<^verbatim>\<open>except\<close> clause.
\<close>

theorem files_validated:
  "(map_of p ''files'' = Some (JList fs) \<and>
      (\<exists>f\<in>set fs. f \<notin> set ALLOWED_FILES \<or> get_dataframe self f = None) \<longrightarrow>
      (\<exists>msg. validate_plan self h p = Inr (False, msg))) \<and>
   (validate_plan self h p = Inr (True, m) \<longrightarrow>
      (\<exists>fs. map_of p ''files'' = Some (JList fs) \<and>
         (\<forall>f\<in>set fs. f \<in> set ALLOWED_FILES \<and> get_dataframe self f \<noteq> None))) \<and>
   (map_of p ''files'' = Some (JList []) \<and> validate_plan self h p = Inr (True, m) \<longrightarrow>
      execute_plan self h p = (Inr (failure (Caught IndexError)), h))"
proof (intro conjI impI)
  assume a: "map_of p ''files'' = Some (JList fs) \<and>
      (\<exists>f\<in>set fs. f \<notin> set ALLOWED_FILES \<or> get_dataframe self f = None)"
  then have "check_files self fs \<noteq> Continue"
    unfolding check_files_Continue_iff by blast
  then obtain msg where "check_files self fs = Return (False, msg)"
    using check_files_result [of self fs] by blast
  then show "\<exists>msg. validate_plan self h p = Inr (False, msg)"
    using a by (cases "map_of p ''operation''") (simp_all add: validate_plan_def)
next
  assume "validate_plan self h p = Inr (True, m)"
  then show "\<exists>fs. map_of p ''files'' = Some (JList fs) \<and>
         (\<forall>f\<in>set fs. f \<in> set ALLOWED_FILES \<and> get_dataframe self f \<noteq> None)"
    unfolding validate_plan_valid_iff check_files_Continue_iff by blast
next
  assume "map_of p ''files'' = Some (JList []) \<and> validate_plan self h p = Inr (True, m)"
  then show "execute_plan self h p = (Inr (failure (Caught IndexError)), h)"
    by (simp add: execute_plan_def try_body_def)
qed

theorem files_validated_witness:
  "map_of [(''files'', JList [JStr ''trades.csv'']), (''operation'', JStr ''count'')] ''files''
     = Some (JList [JStr ''trades.csv'']) \<and>
   get_dataframe example_executor (JStr ''trades.csv'') = None \<and>
   validate_plan example_executor [example_holdings]
     [(''files'', JList [JStr ''trades.csv'']), (''operation'', JStr ''count'')] =
     Inr (False, FileNotLoaded (JStr ''trades.csv'')) \<and>
   validate_plan example_executor [example_holdings] example_plan = Inr (True, NoMessage) \<and>
   (\<exists>fs. map_of example_plan ''files'' = Some (JList fs) \<and>
      (\<forall>f\<in>set fs. f \<in> set ALLOWED_FILES \<and> get_dataframe example_executor f \<noteq> None)) \<and>
   execute_plan example_executor [example_holdings]
     [(''files'', JList []), (''operation'', JStr ''count'')] =
     (Inr (failure (Caught IndexError)), [example_holdings])"
proof -
  let ?t = "[(''files'', JList [JStr ''trades.csv'']), (''operation'', JStr ''count'')]"
  let ?e = "[(''files'', JList []), (''operation'', JStr ''count'')]"
  have a: "map_of ?t ''files'' = Some (JList [JStr ''trades.csv''])"
    by simp
  have b: "get_dataframe example_executor (JStr ''trades.csv'') = None"
    by (simp add: get_dataframe_def example_executor_def)
  have c: "validate_plan example_executor [example_holdings] ?t =
      Inr (False, FileNotLoaded (JStr ''trades.csv''))"
    by (simp add: model_defs)
  have d: "validate_plan example_executor [example_holdings] example_plan = Inr (True, NoMessage)"
    by (simp add: model_defs)
  have e: "map_of ?e ''files'' = Some (JList []) \<and>
      validate_plan example_executor [example_holdings] ?e = Inr (True, NoMessage)"
    by (simp add: model_defs)
  note t = files_validated [of example_plan "[]" example_executor "[example_holdings]" NoMessage]
  note u = files_validated [of ?e "[]" example_executor "[example_holdings]" NoMessage]
  from t d have "\<exists>fs. map_of example_plan ''files'' = Some (JList fs) \<and>
      (\<forall>f\<in>set fs. f \<in> set ALLOWED_FILES \<and> get_dataframe example_executor f \<noteq> None)"
    by blast
  moreover from u e have "execute_plan example_executor [example_holdings] ?e =
     (Inr (failure (Caught IndexError)), [example_holdings])"
    by blast
  ultimately show ?thesis
    using a b c d by blast
qed

end
